theory Spec2Isabelle
  imports Complex_Main "HOL-Library.Signed_Division"
begin

section \<open>Numbers and rectangles\<close>

text \<open>
  The game computes with Python numbers. Velocities and timers are floats that only ever
  hold sums of the literals of the source; they are modelled as \<^typ>\<open>real\<close>, that is
  without rounding. Counters (score, lives, frame indices) are Python integers, modelled
  as \<^typ>\<open>int\<close>.

  \<open>Rect\<close> is the rectangle type of the pygame library: four integer fields
  \<open>x, y, w, h\<close>. Assigning a float to one of its coordinates stores the value truncated
  towards zero, so \<open>rect.y += vy\<close> stores \<open>trunc (y + vy)\<close>.
\<close>

definition GRAVITY :: real where
  "GRAVITY = 0.5"

definition JUMP_STRENGTH :: real where
  "JUMP_STRENGTH = -12"

definition HEIGHT :: int where
  "HEIGHT = 600"

definition trunc :: "real \<Rightarrow> int" where
  "trunc r = (if 0 \<le> r then \<lfloor>r\<rfloor> else \<lceil>r\<rceil>)"

record Rect =
  rect_x :: int
  rect_y :: int
  rect_w :: int
  rect_h :: int

definition rect_left :: "Rect \<Rightarrow> int" where
  "rect_left r = rect_x r"

definition rect_right :: "Rect \<Rightarrow> int" where
  "rect_right r = rect_x r + rect_w r"

definition rect_top :: "Rect \<Rightarrow> int" where
  "rect_top r = rect_y r"

definition rect_bottom :: "Rect \<Rightarrow> int" where
  "rect_bottom r = rect_y r + rect_h r"

definition centerx :: "Rect \<Rightarrow> int" where
  "centerx r = rect_x r + rect_w r sdiv 2"

definition centery :: "Rect \<Rightarrow> int" where
  "centery r = rect_y r + rect_h r sdiv 2"

definition set_right :: "int \<Rightarrow> Rect \<Rightarrow> Rect" where
  "set_right v r = r\<lparr>rect_x := v - rect_w r\<rparr>"

definition set_left :: "int \<Rightarrow> Rect \<Rightarrow> Rect" where
  "set_left v r = r\<lparr>rect_x := v\<rparr>"

definition set_bottom :: "int \<Rightarrow> Rect \<Rightarrow> Rect" where
  "set_bottom v r = r\<lparr>rect_y := v - rect_h r\<rparr>"

definition set_top :: "int \<Rightarrow> Rect \<Rightarrow> Rect" where
  "set_top v r = r\<lparr>rect_y := v\<rparr>"

definition colliderect :: "Rect \<Rightarrow> Rect \<Rightarrow> bool" where
  "colliderect a b =
     (if rect_w a = 0 \<or> rect_h a = 0 \<or> rect_w b = 0 \<or> rect_h b = 0 then False
      else min (rect_x a) (rect_x a + rect_w a) < max (rect_x b) (rect_x b + rect_w b)
         \<and> min (rect_y a) (rect_y a + rect_h a) < max (rect_y b) (rect_y b + rect_h b)
         \<and> max (rect_x a) (rect_x a + rect_w a) > min (rect_x b) (rect_x b + rect_w b)
         \<and> max (rect_y a) (rect_y a + rect_h a) > min (rect_y b) (rect_y b + rect_h b))"

definition collidepoint :: "Rect \<Rightarrow> int \<times> int \<Rightarrow> bool" where
  "collidepoint r p =
     (rect_x r \<le> fst p \<and> fst p < rect_x r + rect_w r
    \<and> rect_y r \<le> snd p \<and> snd p < rect_y r + rect_h r)"

section \<open>AnimatedSprite\<close>

record AnimatedSprite =
  rect :: Rect
  vx :: real
  vy :: real
  on_ground :: bool
  animation_frame :: int
  animation_timer :: real
  animation_speed :: real
  facing_right :: bool

definition update_animation ::
  "real \<Rightarrow> 'a AnimatedSprite_scheme \<Rightarrow> 'a AnimatedSprite_scheme" where
  "update_animation dt s =
     (let s1 = s\<lparr>animation_timer := animation_timer s + dt\<rparr>
      in if animation_timer s1 \<ge> animation_speed s1
         then s1\<lparr>animation_timer := 0, animation_frame := animation_frame s1 + 1\<rparr>
         else s1)"

definition apply_gravity :: "'a AnimatedSprite_scheme \<Rightarrow> 'a AnimatedSprite_scheme" where
  "apply_gravity s =
     (if \<not> on_ground s
      then (let s1 = s\<lparr>vy := vy s + GRAVITY\<rparr>
            in if vy s1 > 15 then s1\<lparr>vy := 15\<rparr> else s1)
      else s)"

text \<open>The body of the loop of \<open>check_collision_x\<close>, for one platform.\<close>

definition collide_x :: "'a AnimatedSprite_scheme \<Rightarrow> Rect \<Rightarrow> 'a AnimatedSprite_scheme" where
  "collide_x s platform =
     (if colliderect (rect s) platform
      then (if vx s > 0 then s\<lparr>rect := set_right (rect_left platform) (rect s)\<rparr>
            else if vx s < 0 then s\<lparr>rect := set_left (rect_right platform) (rect s)\<rparr>
            else s)
      else s)"

definition check_collision_x ::
  "Rect list \<Rightarrow> 'a AnimatedSprite_scheme \<Rightarrow> 'a AnimatedSprite_scheme" where
  "check_collision_x platforms s = foldl collide_x s platforms"

text \<open>The body of the loop of \<open>check_collision_y\<close>, for one platform.\<close>

definition collide_y :: "'a AnimatedSprite_scheme \<Rightarrow> Rect \<Rightarrow> 'a AnimatedSprite_scheme" where
  "collide_y s platform =
     (if colliderect (rect s) platform
      then (if vy s > 0
            then s\<lparr>rect := set_bottom (rect_top platform) (rect s), vy := 0, on_ground := True\<rparr>
            else if vy s < 0
            then s\<lparr>rect := set_top (rect_bottom platform) (rect s), vy := 0\<rparr>
            else s)
      else s)"

definition check_collision_y ::
  "Rect list \<Rightarrow> 'a AnimatedSprite_scheme \<Rightarrow> 'a AnimatedSprite_scheme" where
  "check_collision_y platforms s = foldl collide_y (s\<lparr>on_ground := False\<rparr>) platforms"

definition move :: "Rect list \<Rightarrow> 'a AnimatedSprite_scheme \<Rightarrow> 'a AnimatedSprite_scheme" where
  "move platforms s =
     (let s1 = s\<lparr>rect := (rect s)\<lparr>rect_x := trunc (real_of_int (rect_x (rect s)) + vx s)\<rparr>\<rparr>;
          s2 = check_collision_x platforms s1;
          s3 = s2\<lparr>rect := (rect s2)\<lparr>rect_y := trunc (real_of_int (rect_y (rect s2)) + vy s2)\<rparr>\<rparr>
      in check_collision_y platforms s3)"

text \<open>
  The body as \<open>move\<close> hands it to \<open>check_collision_y\<close>: moved and resolved along x, then
  displaced along y.
\<close>

definition before_collision_y ::
  "Rect list \<Rightarrow> 'a AnimatedSprite_scheme \<Rightarrow> 'a AnimatedSprite_scheme" where
  "before_collision_y platforms s =
     (let s1 = s\<lparr>rect := (rect s)\<lparr>rect_x := trunc (real_of_int (rect_x (rect s)) + vx s)\<rparr>\<rparr>;
          s2 = check_collision_x platforms s1
      in s2\<lparr>rect := (rect s2)\<lparr>rect_y := trunc (real_of_int (rect_y (rect s2)) + vy s2)\<rparr>\<rparr>)"

section \<open>Player\<close>

record Player = AnimatedSprite +
  jump_requested :: bool
  move_left :: bool
  move_right :: bool
  alive :: bool
  invincible :: bool
  invincible_timer :: real

text \<open>
  The constructors. The lists of image actors that \<open>__init__\<close> loads are read by the
  drawing code only and are left out, as is the drawing code.
\<close>

definition Player_init :: "int \<Rightarrow> int \<Rightarrow> Player" where
  "Player_init x y =
     \<lparr>rect = \<lparr>rect_x = x, rect_y = y, rect_w = 40, rect_h = 50\<rparr>,
      vx = 0, vy = 0, on_ground = False,
      animation_frame = 0, animation_timer = 0, animation_speed = 0.15,
      facing_right = True,
      jump_requested = False, move_left = False, move_right = False,
      alive = True, invincible = False, invincible_timer = 0\<rparr>"

definition Player_update :: "real \<Rightarrow> Rect list \<Rightarrow> Player \<Rightarrow> Player" where
  "Player_update dt platforms p =
     (if \<not> alive p then p
      else
        let p1 = (if invincible p
                  then (let q = p\<lparr>invincible_timer := invincible_timer p - dt\<rparr>
                        in if invincible_timer q \<le> 0 then q\<lparr>invincible := False\<rparr> else q)
                  else p);
            p2 = p1\<lparr>vx := 0\<rparr>;
            p3 = (if move_left p2 then p2\<lparr>vx := -4, facing_right := False\<rparr> else p2);
            p4 = (if move_right p3 then p3\<lparr>vx := 4, facing_right := True\<rparr> else p3);
            p5 = (if jump_requested p4 \<and> on_ground p4
                  then p4\<lparr>vy := JUMP_STRENGTH, jump_requested := False\<rparr>
                  else p4);
            p6 = apply_gravity p5;
            p7 = move platforms p6;
            p8 = (if vx p7 \<noteq> 0 \<or> \<not> on_ground p7 then update_animation dt p7 else p7)
        in if rect_y (rect p8) > HEIGHT + 100 then p8\<lparr>alive := False\<rparr> else p8)"

definition take_damage :: "Player \<Rightarrow> bool \<times> Player" where
  "take_damage p =
     (if \<not> invincible p
      then (True, p\<lparr>invincible := True, invincible_timer := 2.0\<rparr>)
      else (False, p))"

section \<open>Enemy\<close>

record Enemy = AnimatedSprite +
  patrol_left :: int
  patrol_right :: int
  speed :: real

definition Enemy_init :: "int \<Rightarrow> int \<Rightarrow> int \<Rightarrow> int \<Rightarrow> Enemy" where
  "Enemy_init x y pl pr =
     \<lparr>rect = \<lparr>rect_x = x, rect_y = y, rect_w = 35, rect_h = 40\<rparr>,
      vx = 2, vy = 0, on_ground = False,
      animation_frame = 0, animation_timer = 0, animation_speed = 0.15,
      facing_right = True,
      patrol_left = pl, patrol_right = pr, speed = 2\<rparr>"

definition Enemy_update :: "real \<Rightarrow> Rect list \<Rightarrow> Enemy \<Rightarrow> Enemy" where
  "Enemy_update dt platforms e =
     (let e1 = (if rect_left (rect e) \<le> patrol_left e
                then e\<lparr>vx := speed e, facing_right := True\<rparr>
                else if rect_right (rect e) \<ge> patrol_right e
                then e\<lparr>vx := - speed e, facing_right := False\<rparr>
                else e);
          e2 = apply_gravity e1;
          e3 = move platforms e2
      in update_animation dt e3)"

section \<open>Coin\<close>

text \<open>
  The fields \<open>x\<close>, \<open>y\<close> and \<open>animation_frame\<close> of the class \<open>Coin\<close> are called
  \<open>coin_x\<close>, \<open>coin_y\<close> and \<open>coin_frame\<close> here, and the distance \<open>dist\<close> that
  \<open>check_collision\<close> computes is \<open>dist_coin\<close>.
\<close>

record Coin =
  coin_x :: int
  coin_y :: int
  radius :: int
  collected :: bool
  coin_frame :: real

definition Coin_init :: "int \<Rightarrow> int \<Rightarrow> Coin" where
  "Coin_init x y =
     \<lparr>coin_x = x, coin_y = y, radius = 12, collected = False, coin_frame = 0\<rparr>"

definition Coin_update :: "real \<Rightarrow> Coin \<Rightarrow> Coin" where
  "Coin_update dt c = c\<lparr>coin_frame := coin_frame c + dt * 5\<rparr>"

definition dist_coin :: "Coin \<Rightarrow> Player \<Rightarrow> real" where
  "dist_coin c p = sqrt (real_of_int ((coin_x c - centerx (rect p))\<^sup>2
                               + (coin_y c - centery (rect p))\<^sup>2))"

definition check_collision :: "Coin \<Rightarrow> Player \<Rightarrow> bool \<times> Coin" where
  "check_collision c p =
     (if collected c then (False, c)
      else if dist_coin c p < real_of_int (radius c + 20)
      then (True, c\<lparr>collected := True\<rparr>)
      else (False, c))"

section \<open>Button\<close>

record Button =
  button_rect :: Rect
  button_text :: string
  hovered :: bool

definition Button_update :: "int \<times> int \<Rightarrow> Button \<Rightarrow> Button" where
  "Button_update pos b = b\<lparr>hovered := collidepoint (button_rect b) pos\<rparr>"

section \<open>The session: the module's global state\<close>

text \<open>The four values of \<open>game_state\<close>: "menu", "playing", "gameover" and "win".\<close>

datatype state = Menu | Playing | Gameover | Win

record game =
  game_state :: state
  music_enabled :: bool
  sounds_enabled :: bool
  score :: int
  lives :: int
  game_over_message :: string
  music_started :: bool
  player :: Player
  enemies :: "Enemy list"
  coins :: "Coin list"
  platforms :: "Rect list"
  buttons :: "Button list"
  mouse_pos :: "int \<times> int"

text \<open>The keys \<open>update\<close> polls.\<close>

record keyboard =
  key_left :: bool
  key_a :: bool
  key_right :: bool
  key_d :: bool

text \<open>Python's \<open>str\<close> of an integer, as the f-string of the win message formats it.\<close>

definition digit :: "nat \<Rightarrow> char" where
  "digit d = ''0123456789'' ! d"

function str_nat :: "nat \<Rightarrow> string" where
  "str_nat n = (if n < 10 then [digit n] else str_nat (n div 10) @ [digit (n mod 10)])"
  by pat_completeness auto
termination
  by (relation "measure (\<lambda>n. n)") auto

declare str_nat.simps [simp del]

definition str_int :: "int \<Rightarrow> string" where
  "str_int i = (if i < 0 then CHR ''-'' # str_nat (nat (- i)) else str_nat (nat i))"

definition init_level :: "game \<Rightarrow> game" where
  "init_level g =
     g\<lparr>player := Player_init 100 400,
       score := 0,
       lives := 3,
       game_over_message := [],
       platforms :=
         [\<lparr>rect_x = 0, rect_y = 550, rect_w = 800, rect_h = 50\<rparr>,
          \<lparr>rect_x = 150, rect_y = 450, rect_w = 200, rect_h = 20\<rparr>,
          \<lparr>rect_x = 450, rect_y = 400, rect_w = 200, rect_h = 20\<rparr>,
          \<lparr>rect_x = 200, rect_y = 300, rect_w = 150, rect_h = 20\<rparr>,
          \<lparr>rect_x = 500, rect_y = 250, rect_w = 180, rect_h = 20\<rparr>,
          \<lparr>rect_x = 300, rect_y = 175, rect_w = 150, rect_h = 20\<rparr>],
       enemies :=
         [Enemy_init 160 400 150 330,
          Enemy_init 460 350 450 630,
          Enemy_init 510 200 500 660],
       coins :=
         [Coin_init 250 420, Coin_init 550 370, Coin_init 275 270,
          Coin_init 590 220, Coin_init 375 150, Coin_init 700 500]\<rparr>"

text \<open>
  The loop over the coins in \<open>update\<close>: each coin is animated, then tested against the
  player; a pickup adds 10 to the score.
\<close>

fun coins_loop :: "real \<Rightarrow> Player \<Rightarrow> Coin list \<Rightarrow> int \<Rightarrow> Coin list \<times> int" where
  "coins_loop dt p [] sc = ([], sc)"
| "coins_loop dt p (c # cs) sc =
     (let c1 = Coin_update dt c;
          (hit, c2) = check_collision c1 p;
          sc1 = (if hit then sc + 10 else sc);
          (cs', sc2) = coins_loop dt p cs sc1
      in (c2 # cs', sc2))"

text \<open>The body of the loop over the enemies that damages the player, for one enemy.\<close>

definition hit_enemy :: "game \<Rightarrow> Enemy \<Rightarrow> game" where
  "hit_enemy g e =
     (if colliderect (rect (player g)) (rect e)
      then (let (hit, p1) = take_damage (player g);
                g1 = g\<lparr>player := p1\<rparr>
            in if hit
               then (let g2 = g1\<lparr>lives := lives g1 - 1\<rparr>
                     in if lives g2 \<le> 0
                        then g2\<lparr>player := (player g2)\<lparr>alive := False\<rparr>,
                                game_over_message := ''Game Over! No lives left!''\<rparr>
                        else g2)
               else g1)
      else g)"

text \<open>
  \<open>update\<close>. The calls that play a sound have no effect on the state and are left out;
  \<open>music.play\<close> may raise, and \<open>music_ok\<close> says that it does not.
\<close>

definition update :: "real \<Rightarrow> keyboard \<Rightarrow> bool \<Rightarrow> game \<Rightarrow> game" where
  "update dt kb music_ok g =
     (let g1 = (if \<not> music_started g \<and> music_enabled g \<and> music_ok
                then g\<lparr>music_started := True\<rparr> else g);
          g2 = (if game_state g1 = Playing
                then g1\<lparr>player := (player g1)\<lparr>move_left := key_left kb \<or> key_a kb,
                                              move_right := key_right kb \<or> key_d kb\<rparr>\<rparr>
                else g1)
      in if game_state g2 = Menu
         then g2\<lparr>buttons := map (Button_update (mouse_pos g2)) (buttons g2)\<rparr>
         else if game_state g2 = Playing
         then
           (let g3 = g2\<lparr>player := Player_update dt (platforms g2) (player g2)\<rparr>;
                g4 = g3\<lparr>enemies := map (Enemy_update dt (platforms g3)) (enemies g3)\<rparr>;
                cl = coins_loop dt (player g4) (coins g4) (score g4);
                g5 = g4\<lparr>coins := fst cl, score := snd cl\<rparr>;
                g6 = (if alive (player g5) then foldl hit_enemy g5 (enemies g5) else g5);
                g7 = (if list_all collected (coins g6) \<and> alive (player g6)
                      then g6\<lparr>game_state := Win,
                              game_over_message := ''You Won! Score: '' @ str_int (score g6)\<rparr>
                      else g6)
            in if \<not> alive (player g7) then g7\<lparr>game_state := Gameover\<rparr> else g7)
         else g2)"

datatype key = SPACE | UP | OTHER

definition on_key_down :: "key \<Rightarrow> game \<Rightarrow> game" where
  "on_key_down k g =
     (if game_state g = Playing
      then (if k = SPACE \<or> k = UP
            then g\<lparr>player := (player g)\<lparr>jump_requested := True\<rparr>\<rparr> else g)
      else if game_state g = Gameover \<or> game_state g = Win
      then (if k = SPACE then g\<lparr>game_state := Menu\<rparr> else g)
      else g)"

text \<open>A body for examples: a sprite of the given size at the given place, at rest.\<close>

definition sprite_at :: "int \<Rightarrow> int \<Rightarrow> int \<Rightarrow> int \<Rightarrow> AnimatedSprite" where
  "sprite_at x y w h =
     \<lparr>rect = \<lparr>rect_x = x, rect_y = y, rect_w = w, rect_h = h\<rparr>,
      vx = 0, vy = 0, on_ground = False,
      animation_frame = 0, animation_timer = 0, animation_speed = 0.15,
      facing_right = True\<rparr>"

text \<open>A run of the game: one call of \<open>update\<close> for each tick, given with its inputs.\<close>

fun run :: "(real \<times> keyboard \<times> bool) list \<Rightarrow> game \<Rightarrow> game" where
  "run [] g = g"
| "run ((dt, kb, m) # ts) g = run ts (update dt kb m g)"

section \<open>The blocks of \<open>move\<close> and of the update functions\<close>

text \<open>
  \<open>move\<close>, \<open>Player.update\<close>, \<open>Enemy.update\<close> and \<open>update\<close> are sequences of blocks. Each
  block is named here, so that a proof can follow the blocks one at a time; the lemmas
  \<open>move_phases\<close>, \<open>Player_update_phases\<close>, \<open>Enemy_update_phases\<close> and \<open>update_phases\<close> below
  show that the functions are the compositions of their blocks.
\<close>

definition shift_x :: "'a AnimatedSprite_scheme \<Rightarrow> 'a AnimatedSprite_scheme" where
  "shift_x s = s\<lparr>rect := (rect s)\<lparr>rect_x := trunc (real_of_int (rect_x (rect s)) + vx s)\<rparr>\<rparr>"

definition shift_y :: "'a AnimatedSprite_scheme \<Rightarrow> 'a AnimatedSprite_scheme" where
  "shift_y s = s\<lparr>rect := (rect s)\<lparr>rect_y := trunc (real_of_int (rect_y (rect s)) + vy s)\<rparr>\<rparr>"

definition steer :: "Enemy \<Rightarrow> Enemy" where
  "steer e =
     (if rect_left (rect e) \<le> patrol_left e
      then e\<lparr>vx := speed e, facing_right := True\<rparr>
      else if rect_right (rect e) \<ge> patrol_right e
      then e\<lparr>vx := - speed e, facing_right := False\<rparr>
      else e)"

definition count_down :: "real \<Rightarrow> Player \<Rightarrow> Player" where
  "count_down dt p =
     (if invincible p
      then (let q = p\<lparr>invincible_timer := invincible_timer p - dt\<rparr>
            in if invincible_timer q \<le> 0 then q\<lparr>invincible := False\<rparr> else q)
      else p)"

definition read_input :: "Player \<Rightarrow> Player" where
  "read_input p =
     (let p2 = p\<lparr>vx := 0\<rparr>;
          p3 = (if move_left p2 then p2\<lparr>vx := -4, facing_right := False\<rparr> else p2)
      in if move_right p3 then p3\<lparr>vx := 4, facing_right := True\<rparr> else p3)"

definition try_jump :: "Player \<Rightarrow> Player" where
  "try_jump p =
     (if jump_requested p \<and> on_ground p
      then p\<lparr>vy := JUMP_STRENGTH, jump_requested := False\<rparr> else p)"

definition animate :: "real \<Rightarrow> Player \<Rightarrow> Player" where
  "animate dt p = (if vx p \<noteq> 0 \<or> \<not> on_ground p then update_animation dt p else p)"

definition check_fall :: "Player \<Rightarrow> Player" where
  "check_fall p = (if rect_y (rect p) > HEIGHT + 100 then p\<lparr>alive := False\<rparr> else p)"

definition start_music :: "bool \<Rightarrow> game \<Rightarrow> game" where
  "start_music music_ok g =
     (if \<not> music_started g \<and> music_enabled g \<and> music_ok
      then g\<lparr>music_started := True\<rparr> else g)"

definition poll_keys :: "keyboard \<Rightarrow> game \<Rightarrow> game" where
  "poll_keys kb g =
     (if game_state g = Playing
      then g\<lparr>player := (player g)\<lparr>move_left := key_left kb \<or> key_a kb,
                                  move_right := key_right kb \<or> key_d kb\<rparr>\<rparr>
      else g)"

definition update_sprites :: "real \<Rightarrow> game \<Rightarrow> game" where
  "update_sprites dt g =
     (let g3 = g\<lparr>player := Player_update dt (platforms g) (player g)\<rparr>
      in g3\<lparr>enemies := map (Enemy_update dt (platforms g3)) (enemies g3)\<rparr>)"

definition collect_coins :: "real \<Rightarrow> game \<Rightarrow> game" where
  "collect_coins dt g =
     (let cl = coins_loop dt (player g) (coins g) (score g)
      in g\<lparr>coins := fst cl, score := snd cl\<rparr>)"

definition damage :: "game \<Rightarrow> game" where
  "damage g = (if alive (player g) then foldl hit_enemy g (enemies g) else g)"

definition decide :: "game \<Rightarrow> game" where
  "decide g =
     (let g7 = (if list_all collected (coins g) \<and> alive (player g)
                then g\<lparr>game_state := Win,
                       game_over_message := ''You Won! Score: '' @ str_int (score g)\<rparr>
                else g)
      in if \<not> alive (player g7) then g7\<lparr>game_state := Gameover\<rparr> else g7)"

section \<open>Values for the examples\<close>

text \<open>The ground platform and the first ledge of the level.\<close>

definition ground :: Rect where
  "ground = \<lparr>rect_x = 0, rect_y = 550, rect_w = 800, rect_h = 50\<rparr>"

definition ledge :: Rect where
  "ledge = \<lparr>rect_x = 150, rect_y = 450, rect_w = 200, rect_h = 20\<rparr>"

text \<open>
  The globals as the module sets them when it is loaded; a player standing on the
  ground; a session whose last coin is at the player's centre; and the same session
  with one life left and an enemy walking into the player.
\<close>

definition initial :: game where
  "initial =
     \<lparr>game_state = Menu, music_enabled = True, sounds_enabled = True,
      score = 0, lives = 3, game_over_message = [], music_started = False,
      player = Player_init 100 400, enemies = [], coins = [], platforms = [],
      buttons =
        [\<lparr>button_rect = \<lparr>rect_x = 300, rect_y = 200, rect_w = 200, rect_h = 50\<rparr>,
          button_text = ''Start Game'', hovered = False\<rparr>,
         \<lparr>button_rect = \<lparr>rect_x = 300, rect_y = 280, rect_w = 200, rect_h = 50\<rparr>,
          button_text = ''Toggle Music'', hovered = False\<rparr>,
         \<lparr>button_rect = \<lparr>rect_x = 300, rect_y = 360, rect_w = 200, rect_h = 50\<rparr>,
          button_text = ''Toggle Sounds'', hovered = False\<rparr>,
         \<lparr>button_rect = \<lparr>rect_x = 300, rect_y = 440, rect_w = 200, rect_h = 50\<rparr>,
          button_text = ''Exit'', hovered = False\<rparr>],
      mouse_pos = (0, 0)\<rparr>"

definition no_keys :: keyboard where
  "no_keys = \<lparr>key_left = False, key_a = False, key_right = False, key_d = False\<rparr>"

definition standing :: Player where
  "standing = (Player_init 100 500)\<lparr>on_ground := True\<rparr>"

definition last_coin :: game where
  "last_coin =
     initial\<lparr>game_state := Playing, platforms := [ground], coins := [Coin_init 120 525],
             player := standing\<rparr>"

definition last_life :: game where
  "last_life = last_coin\<lparr>lives := 1, enemies := [Enemy_init 110 510 0 800]\<rparr>"

text \<open>
  Players for the examples: one that walks to the right while it comes down on the
  ground, one that comes down without a key held, and one in the air that has asked for
  a jump; sessions with two enemies in the player's place, with the jump asked for in
  the air, and with the jump asked for on the ground.
\<close>

definition lander :: Player where
  "lander = (Player_init 100 495)\<lparr>vy := 6, move_right := True\<rparr>"

definition faller :: Player where
  "faller = (Player_init 100 495)\<lparr>vy := 6\<rparr>"

definition crowded :: game where
  "crowded = last_coin\<lparr>enemies := [Enemy_init 110 510 0 800, Enemy_init 90 510 0 800]\<rparr>"

definition hopper :: Player where
  "hopper = (Player_init 100 400)\<lparr>jump_requested := True\<rparr>"

definition buffered :: game where
  "buffered = last_coin\<lparr>player := hopper\<rparr>"

definition ready :: game where
  "ready = last_coin\<lparr>player := standing\<lparr>jump_requested := True\<rparr>\<rparr>"

section \<open>Basic facts\<close>

lemmas rect_defs = rect_left_def rect_right_def rect_top_def rect_bottom_def
  set_left_def set_right_def set_top_def set_bottom_def colliderect_def



lemma move_phases:
  "move ps s = check_collision_y ps (shift_y (check_collision_x ps (shift_x s)))"
  unfolding move_def shift_x_def shift_y_def Let_def
  by (rule refl)

lemma before_collision_y_phases:
  "before_collision_y ps s = shift_y (check_collision_x ps (shift_x s))"
  unfolding before_collision_y_def shift_x_def shift_y_def Let_def
  by (rule refl)

lemma Enemy_update_phases:
  "Enemy_update dt ps e = update_animation dt (move ps (apply_gravity (steer e)))"
  unfolding Enemy_update_def steer_def Let_def
  by (rule refl)

lemma update_animation_eq:
  "update_animation dt s =
     (if animation_timer s + dt \<ge> animation_speed s
      then s\<lparr>animation_timer := 0, animation_frame := animation_frame s + 1\<rparr>
      else s\<lparr>animation_timer := animation_timer s + dt\<rparr>)"
  by (simp add: update_animation_def Let_def)

lemma apply_gravity_eq:
  "apply_gravity s =
     (if on_ground s then s
      else if vy s + 0.5 > 15 then s\<lparr>vy := 15\<rparr> else s\<lparr>vy := vy s + 0.5\<rparr>)"
  by (simp add: apply_gravity_def GRAVITY_def Let_def)

text \<open>The equations that run the physics on a given body, block after block.\<close>

lemmas run_sprite = move_phases before_collision_y_phases shift_x_def shift_y_def trunc_def
  check_collision_x_def check_collision_y_def collide_x_def collide_y_def
  apply_gravity_eq update_animation_eq rect_defs



lemma collide_x_vy [simp]: "vy (collide_x s p) = vy s"
  by (simp add: collide_x_def)

lemma foldl_collide_x_vy [simp]: "vy (foldl collide_x s ps) = vy s"
  by (induction ps arbitrary: s) simp_all



subsection \<open>What the physics leaves alone\<close>

lemma collide_x_frame: "collide_x s p = s\<lparr>rect := rect (collide_x s p)\<rparr>"
  by (simp add: collide_x_def)

lemma foldl_collide_x_frame: "foldl collide_x s ps = s\<lparr>rect := rect (foldl collide_x s ps)\<rparr>"
proof (induction ps arbitrary: s)
  case Nil
  show ?case by simp
next
  case (Cons p ps)
  have "foldl collide_x (collide_x s p) ps
        = (collide_x s p)\<lparr>rect := rect (foldl collide_x (collide_x s p) ps)\<rparr>"
    by (rule Cons.IH)
  also have "\<dots> = (s\<lparr>rect := rect (collide_x s p)\<rparr>)\<lparr>rect := rect (foldl collide_x (collide_x s p) ps)\<rparr>"
    using collide_x_frame [of s p] by simp
  finally show ?case by simp
qed

lemma collide_y_frame:
  "collide_y s p = s\<lparr>rect := rect (collide_y s p), vy := vy (collide_y s p),
                      on_ground := on_ground (collide_y s p)\<rparr>"
  by (simp add: collide_y_def)

lemma foldl_collide_y_frame:
  "foldl collide_y s ps = s\<lparr>rect := rect (foldl collide_y s ps), vy := vy (foldl collide_y s ps),
                      on_ground := on_ground (foldl collide_y s ps)\<rparr>"
proof (induction ps arbitrary: s)
  case Nil
  show ?case by simp
next
  case (Cons p ps)
  let ?t = "collide_y s p" and ?u = "foldl collide_y (collide_y s p) ps"
  have "?u = ?t\<lparr>rect := rect ?u, vy := vy ?u, on_ground := on_ground ?u\<rparr>"
    by (rule Cons.IH)
  also have "\<dots> = (s\<lparr>rect := rect ?t, vy := vy ?t, on_ground := on_ground ?t\<rparr>)
                    \<lparr>rect := rect ?u, vy := vy ?u, on_ground := on_ground ?u\<rparr>"
    using collide_y_frame [of s p] by simp
  finally show ?case by simp
qed

lemma move_frame:
  "move ps s = s\<lparr>rect := rect (move ps s), vy := vy (move ps s),
                  on_ground := on_ground (move ps s)\<rparr>"
proof -
  let ?s1 = "s\<lparr>rect := (rect s)\<lparr>rect_x := trunc (real_of_int (rect_x (rect s)) + vx s)\<rparr>\<rparr>"
  let ?s2 = "foldl collide_x ?s1 ps"
  let ?s3 = "?s2\<lparr>rect := (rect ?s2)\<lparr>rect_y := trunc (real_of_int (rect_y (rect ?s2)) + vy ?s2)\<rparr>\<rparr>"
  let ?s4 = "foldl collide_y (?s3\<lparr>on_ground := False\<rparr>) ps"
  have m: "move ps s = ?s4"
    by (simp add: move_def Let_def check_collision_x_def check_collision_y_def)
  have "?s2 = ?s1\<lparr>rect := rect ?s2\<rparr>" by (rule foldl_collide_x_frame)
  then have s2: "?s2 = s\<lparr>rect := rect ?s2\<rparr>" by simp
  have "?s4 = (?s3\<lparr>on_ground := False\<rparr>)\<lparr>rect := rect ?s4, vy := vy ?s4, on_ground := on_ground ?s4\<rparr>"
    by (rule foldl_collide_y_frame)
  also have "\<dots> = ?s2\<lparr>rect := rect ?s4, vy := vy ?s4, on_ground := on_ground ?s4\<rparr>"
    by simp
  also have "\<dots> = (s\<lparr>rect := rect ?s2\<rparr>)\<lparr>rect := rect ?s4, vy := vy ?s4, on_ground := on_ground ?s4\<rparr>"
    using s2 by simp
  finally have "?s4 = s\<lparr>rect := rect ?s4, vy := vy ?s4, on_ground := on_ground ?s4\<rparr>"
    by simp
  then show ?thesis by (simp only: m)
qed

lemma apply_gravity_frame: "apply_gravity s = s\<lparr>vy := vy (apply_gravity s)\<rparr>"
  by (simp add: apply_gravity_def Let_def)

lemma update_animation_frame:
  "update_animation dt s = s\<lparr>animation_timer := animation_timer (update_animation dt s),
      animation_frame := animation_frame (update_animation dt s)\<rparr>"
  by (simp add: update_animation_def Let_def)


lemma move_keeps [simp]:
  "vx (move ps s) = vx s"
  "animation_frame (move ps s) = animation_frame s"
  "animation_timer (move ps s) = animation_timer s"
  "animation_speed (move ps s) = animation_speed s"
  "facing_right (move ps s) = facing_right s"
  by (subst move_frame, simp)+

lemma move_keeps_Player [simp]:
  "jump_requested (move ps p) = jump_requested p"
  "move_left (move ps p) = move_left p"
  "move_right (move ps p) = move_right p"
  "alive (move ps p) = alive p"
  "invincible (move ps p) = invincible p"
  "invincible_timer (move ps p) = invincible_timer p"
  by (subst move_frame, simp)+

lemma move_keeps_Enemy [simp]:
  "patrol_left (move ps e) = patrol_left e"
  "patrol_right (move ps e) = patrol_right e"
  "speed (move ps e) = speed e"
  by (subst move_frame, simp)+

lemma apply_gravity_keeps [simp]:
  "rect (apply_gravity s) = rect s"
  "vx (apply_gravity s) = vx s"
  "on_ground (apply_gravity s) = on_ground s"
  "animation_frame (apply_gravity s) = animation_frame s"
  "animation_timer (apply_gravity s) = animation_timer s"
  "animation_speed (apply_gravity s) = animation_speed s"
  "facing_right (apply_gravity s) = facing_right s"
  by (subst apply_gravity_frame, simp)+

lemma apply_gravity_keeps_Player [simp]:
  "jump_requested (apply_gravity p) = jump_requested p"
  "move_left (apply_gravity p) = move_left p"
  "move_right (apply_gravity p) = move_right p"
  "alive (apply_gravity p) = alive p"
  "invincible (apply_gravity p) = invincible p"
  "invincible_timer (apply_gravity p) = invincible_timer p"
  by (subst apply_gravity_frame, simp)+

lemma update_animation_keeps [simp]:
  "rect (update_animation dt s) = rect s"
  "vx (update_animation dt s) = vx s"
  "vy (update_animation dt s) = vy s"
  "on_ground (update_animation dt s) = on_ground s"
  "animation_speed (update_animation dt s) = animation_speed s"
  "facing_right (update_animation dt s) = facing_right s"
  by (subst update_animation_frame, simp)+

lemma update_animation_keeps_Player [simp]:
  "jump_requested (update_animation dt p) = jump_requested p"
  "move_left (update_animation dt p) = move_left p"
  "move_right (update_animation dt p) = move_right p"
  "alive (update_animation dt p) = alive p"
  "invincible (update_animation dt p) = invincible p"
  "invincible_timer (update_animation dt p) = invincible_timer p"
  by (subst update_animation_frame, simp)+




lemma trunc_int [simp]: "trunc (real_of_int i) = i"
  by (simp add: trunc_def)



subsection \<open>The blocks of \<open>Player.update\<close>\<close>

lemma Player_update_phases:
  "Player_update dt ps p =
     (if \<not> alive p then p
      else check_fall (animate dt (move ps (apply_gravity (try_jump (read_input (count_down dt p)))))))"
  unfolding Player_update_def count_down_def read_input_def try_jump_def animate_def
    check_fall_def Let_def
  by (rule refl)

lemma count_down_keeps [simp]:
  "rect (count_down dt p) = rect p" "vx (count_down dt p) = vx p" "vy (count_down dt p) = vy p"
  "on_ground (count_down dt p) = on_ground p"
  "animation_frame (count_down dt p) = animation_frame p"
  "animation_timer (count_down dt p) = animation_timer p"
  "animation_speed (count_down dt p) = animation_speed p"
  "facing_right (count_down dt p) = facing_right p"
  "jump_requested (count_down dt p) = jump_requested p"
  "move_left (count_down dt p) = move_left p"
  "move_right (count_down dt p) = move_right p"
  "alive (count_down dt p) = alive p"
  by (simp_all add: count_down_def Let_def)

lemma count_down_invincible [simp]:
  "invincible (count_down dt p) = (invincible p \<and> 0 < invincible_timer p - dt)"
  "invincible_timer (count_down dt p)
     = (if invincible p then invincible_timer p - dt else invincible_timer p)"
  by (auto simp add: count_down_def Let_def)

lemma read_input_keeps [simp]:
  "rect (read_input p) = rect p" "vy (read_input p) = vy p"
  "on_ground (read_input p) = on_ground p"
  "animation_frame (read_input p) = animation_frame p"
  "animation_timer (read_input p) = animation_timer p"
  "animation_speed (read_input p) = animation_speed p"
  "jump_requested (read_input p) = jump_requested p"
  "move_left (read_input p) = move_left p"
  "move_right (read_input p) = move_right p"
  "alive (read_input p) = alive p"
  "invincible (read_input p) = invincible p"
  "invincible_timer (read_input p) = invincible_timer p"
  by (simp_all add: read_input_def Let_def)

lemma read_input_vx [simp]:
  "vx (read_input p) = (if move_right p then 4 else if move_left p then -4 else 0)"
  by (simp add: read_input_def Let_def)

lemma try_jump_keeps [simp]:
  "rect (try_jump p) = rect p" "vx (try_jump p) = vx p"
  "on_ground (try_jump p) = on_ground p"
  "animation_frame (try_jump p) = animation_frame p"
  "animation_timer (try_jump p) = animation_timer p"
  "animation_speed (try_jump p) = animation_speed p"
  "facing_right (try_jump p) = facing_right p"
  "move_left (try_jump p) = move_left p"
  "move_right (try_jump p) = move_right p"
  "alive (try_jump p) = alive p"
  "invincible (try_jump p) = invincible p"
  "invincible_timer (try_jump p) = invincible_timer p"
  by (simp_all add: try_jump_def)

lemma try_jump_jump_requested [simp]:
  "jump_requested (try_jump p) = (jump_requested p \<and> \<not> on_ground p)"
  by (auto simp add: try_jump_def)

lemma animate_keeps [simp]:
  "rect (animate dt p) = rect p" "vx (animate dt p) = vx p" "vy (animate dt p) = vy p"
  "on_ground (animate dt p) = on_ground p"
  "animation_speed (animate dt p) = animation_speed p"
  "facing_right (animate dt p) = facing_right p"
  "jump_requested (animate dt p) = jump_requested p"
  "move_left (animate dt p) = move_left p"
  "move_right (animate dt p) = move_right p"
  "alive (animate dt p) = alive p"
  "invincible (animate dt p) = invincible p"
  "invincible_timer (animate dt p) = invincible_timer p"
  by (simp_all add: animate_def)

lemma check_fall_keeps [simp]:
  "rect (check_fall p) = rect p" "vx (check_fall p) = vx p" "vy (check_fall p) = vy p"
  "on_ground (check_fall p) = on_ground p"
  "animation_frame (check_fall p) = animation_frame p"
  "animation_timer (check_fall p) = animation_timer p"
  "animation_speed (check_fall p) = animation_speed p"
  "facing_right (check_fall p) = facing_right p"
  "jump_requested (check_fall p) = jump_requested p"
  "move_left (check_fall p) = move_left p"
  "move_right (check_fall p) = move_right p"
  "invincible (check_fall p) = invincible p"
  "invincible_timer (check_fall p) = invincible_timer p"
  by (simp_all add: check_fall_def)

lemma Player_update_dead: "\<not> alive p \<Longrightarrow> Player_update dt ps p = p"
  by (simp add: Player_update_def)

lemma Player_update_invincible:
  "invincible (Player_update dt ps p)
     = (invincible p \<and> (alive p \<longrightarrow> 0 < invincible_timer p - dt))"
  by (simp add: Player_update_phases)

lemma Player_update_invincible_timer:
  "invincible_timer (Player_update dt ps p)
     = (if alive p \<and> invincible p then invincible_timer p - dt else invincible_timer p)"
  by (simp add: Player_update_phases)

lemma Player_update_jump_requested:
  "jump_requested (Player_update dt ps p)
     = (jump_requested p \<and> (alive p \<longrightarrow> \<not> on_ground p))"
  by (simp add: Player_update_phases)

lemma Player_update_vx:
  "alive p \<Longrightarrow> vx (Player_update dt ps p)
     = (if move_right p then 4 else if move_left p then -4 else 0)"
  by (simp add: Player_update_phases)

subsection \<open>The damage loop\<close>

lemma hit_enemy_invincible: "invincible (player g) \<Longrightarrow> hit_enemy g e = g"
  by (simp add: hit_enemy_def take_damage_def Let_def)

lemma foldl_hit_enemy_invincible: "invincible (player g) \<Longrightarrow> foldl hit_enemy g es = g"
  by (induction es) (simp_all add: hit_enemy_invincible)

lemma hit_enemy_first:
  "\<not> invincible (player g) \<Longrightarrow> colliderect (rect (player g)) (rect e)
   \<Longrightarrow> lives (hit_enemy g e) = lives g - 1 \<and> invincible (player (hit_enemy g e))
       \<and> invincible_timer (player (hit_enemy g e)) = 2"
  by (simp add: hit_enemy_def take_damage_def Let_def)

lemma hit_enemy_miss: "\<not> colliderect (rect (player g)) (rect e) \<Longrightarrow> hit_enemy g e = g"
  by (simp add: hit_enemy_def)

lemma foldl_hit_enemy_once:
  "\<not> invincible (player g) \<Longrightarrow> \<exists>e\<in>set es. colliderect (rect (player g)) (rect e)
   \<Longrightarrow> lives (foldl hit_enemy g es) = lives g - 1
       \<and> invincible (player (foldl hit_enemy g es))
       \<and> invincible_timer (player (foldl hit_enemy g es)) = 2"
proof (induction es arbitrary: g)
  case Nil
  then show ?case by simp
next
  case (Cons e es)
  show ?case
  proof (cases "colliderect (rect (player g)) (rect e)")
    case True
    with Cons.prems show ?thesis
      using hit_enemy_first [of g e]
      by (simp add: foldl_hit_enemy_invincible)
  next
    case False
    with Cons.prems Cons.IH [of g] show ?thesis
      by (auto simp add: hit_enemy_miss)
  qed
qed


subsection \<open>The blocks of \<open>update\<close>\<close>

lemma update_phases:
  "update dt kb music_ok g =
     (let g2 = poll_keys kb (start_music music_ok g)
      in if game_state g2 = Menu
         then g2\<lparr>buttons := map (Button_update (mouse_pos g2)) (buttons g2)\<rparr>
         else if game_state g2 = Playing
         then decide (damage (collect_coins dt (update_sprites dt g2)))
         else g2)"
  unfolding update_def start_music_def poll_keys_def update_sprites_def collect_coins_def
    damage_def decide_def Let_def
  by (rule refl)

lemma start_music_keeps [simp]:
  "game_state (start_music m g) = game_state g" "player (start_music m g) = player g"
  "coins (start_music m g) = coins g" "score (start_music m g) = score g"
  "lives (start_music m g) = lives g" "enemies (start_music m g) = enemies g"
  "platforms (start_music m g) = platforms g"
  by (simp_all add: start_music_def)

lemma poll_keys_keeps [simp]:
  "game_state (poll_keys kb g) = game_state g"
  "coins (poll_keys kb g) = coins g" "score (poll_keys kb g) = score g"
  "lives (poll_keys kb g) = lives g" "enemies (poll_keys kb g) = enemies g"
  "platforms (poll_keys kb g) = platforms g"
  by (simp_all add: poll_keys_def)

lemma poll_keys_player [simp]:
  "jump_requested (player (poll_keys kb g)) = jump_requested (player g)"
  "on_ground (player (poll_keys kb g)) = on_ground (player g)"
  "alive (player (poll_keys kb g)) = alive (player g)"
  "invincible (player (poll_keys kb g)) = invincible (player g)"
  "invincible_timer (player (poll_keys kb g)) = invincible_timer (player g)"
  by (simp_all add: poll_keys_def)

lemma update_sprites_keeps [simp]:
  "game_state (update_sprites dt g) = game_state g"
  "coins (update_sprites dt g) = coins g" "score (update_sprites dt g) = score g"
  "lives (update_sprites dt g) = lives g"
  "player (update_sprites dt g) = Player_update dt (platforms g) (player g)"
  by (simp_all add: update_sprites_def Let_def)

lemma collect_coins_keeps [simp]:
  "game_state (collect_coins dt g) = game_state g"
  "player (collect_coins dt g) = player g"
  "lives (collect_coins dt g) = lives g" "enemies (collect_coins dt g) = enemies g"
  "coins (collect_coins dt g) = fst (coins_loop dt (player g) (coins g) (score g))"
  "score (collect_coins dt g) = snd (coins_loop dt (player g) (coins g) (score g))"
  by (simp_all add: collect_coins_def Let_def)

lemma hit_enemy_frame:
  "hit_enemy g e = g\<lparr>player := player (hit_enemy g e), lives := lives (hit_enemy g e),
       game_over_message := game_over_message (hit_enemy g e)\<rparr>"
  by (simp add: hit_enemy_def Let_def take_damage_def)

lemma hit_enemy_player_frame:
  "player (hit_enemy g e) = (player g)\<lparr>alive := alive (player (hit_enemy g e)),
      invincible := invincible (player (hit_enemy g e)),
      invincible_timer := invincible_timer (player (hit_enemy g e))\<rparr>"
  by (simp add: hit_enemy_def Let_def take_damage_def)

lemma hit_enemy_keeps [simp]:
  "game_state (hit_enemy g e) = game_state g" "coins (hit_enemy g e) = coins g"
  "score (hit_enemy g e) = score g" "enemies (hit_enemy g e) = enemies g"
  "platforms (hit_enemy g e) = platforms g"
  by (subst hit_enemy_frame, simp)+

lemma hit_enemy_player_keeps [simp]:
  "jump_requested (player (hit_enemy g e)) = jump_requested (player g)"
  "on_ground (player (hit_enemy g e)) = on_ground (player g)"
  "rect (player (hit_enemy g e)) = rect (player g)"
  by (subst hit_enemy_player_frame, simp)+

lemma foldl_hit_enemy_keeps [simp]:
  "game_state (foldl hit_enemy g es) = game_state g"
  "coins (foldl hit_enemy g es) = coins g"
  "score (foldl hit_enemy g es) = score g"
  "jump_requested (player (foldl hit_enemy g es)) = jump_requested (player g)"
  "on_ground (player (foldl hit_enemy g es)) = on_ground (player g)"
  "rect (player (foldl hit_enemy g es)) = rect (player g)"
  by (induction es arbitrary: g) simp_all

lemma damage_keeps [simp]:
  "game_state (damage g) = game_state g" "coins (damage g) = coins g"
  "score (damage g) = score g"
  "jump_requested (player (damage g)) = jump_requested (player g)"
  "on_ground (player (damage g)) = on_ground (player g)"
  "rect (player (damage g)) = rect (player g)"
  by (simp_all add: damage_def)

lemma damage_invincible: "invincible (player g) \<Longrightarrow> damage g = g"
  by (simp add: damage_def foldl_hit_enemy_invincible)

lemma decide_keeps [simp]:
  "player (decide g) = player g" "coins (decide g) = coins g" "score (decide g) = score g"
  "lives (decide g) = lives g" "enemies (decide g) = enemies g"
  by (simp_all add: decide_def Let_def)

lemma decide_state:
  "game_state (decide g) =
     (if \<not> alive (player g) then Gameover
      else if list_all collected (coins g) then Win else game_state g)"
  by (simp add: decide_def Let_def)

lemma decide_message:
  "list_all collected (coins g) \<Longrightarrow> alive (player g)
   \<Longrightarrow> game_over_message (decide g) = ''You Won! Score: '' @ str_int (score g)"
  by (simp add: decide_def Let_def)

lemma update_playing:
  "game_state g = Playing \<Longrightarrow>
   update dt kb m g
     = decide (damage (collect_coins dt (update_sprites dt (poll_keys kb (start_music m g)))))"
  by (simp add: update_phases Let_def)

subsection \<open>Running the game on given values\<close>

lemma count_down_eq:
  "count_down dt p =
     (if invincible p
      then (if invincible_timer p - dt \<le> 0
            then p\<lparr>invincible_timer := invincible_timer p - dt, invincible := False\<rparr>
            else p\<lparr>invincible_timer := invincible_timer p - dt\<rparr>)
      else p)"
  by (simp add: count_down_def Let_def)

lemma read_input_eq:
  "read_input p =
     (if move_right p then p\<lparr>vx := 4, facing_right := True\<rparr>
      else if move_left p then p\<lparr>vx := -4, facing_right := False\<rparr>
      else p\<lparr>vx := 0\<rparr>)"
  by (simp add: read_input_def Let_def)

lemmas run_Player = Player_update_phases count_down_eq read_input_eq try_jump_def
  animate_def check_fall_def HEIGHT_def JUMP_STRENGTH_def run_sprite

lemmas run_Enemy = Enemy_update_phases steer_def run_sprite

lemma update_sprites_eq:
  "update_sprites dt g =
     g\<lparr>player := Player_update dt (platforms g) (player g),
       enemies := map (Enemy_update dt (platforms g)) (enemies g)\<rparr>"
  by (simp add: update_sprites_def Let_def)

lemma collect_coins_eq:
  "collect_coins dt g =
     g\<lparr>coins := fst (coins_loop dt (player g) (coins g) (score g)),
       score := snd (coins_loop dt (player g) (coins g) (score g))\<rparr>"
  by (simp add: collect_coins_def Let_def)

lemma coins_loop_Cons:
  "coins_loop dt p (c # cs) sc =
     (snd (check_collision (Coin_update dt c) p)
        # fst (coins_loop dt p cs (if fst (check_collision (Coin_update dt c) p) then sc + 10 else sc)),
      snd (coins_loop dt p cs (if fst (check_collision (Coin_update dt c) p) then sc + 10 else sc)))"
  by (simp add: Let_def split: prod.split)

lemma hit_enemy_eq:
  "hit_enemy g e =
     (if colliderect (rect (player g)) (rect e) \<and> \<not> invincible (player g)
      then (if lives g - 1 \<le> 0
            then g\<lparr>player := (player g)\<lparr>invincible := True, invincible_timer := 2, alive := False\<rparr>,
                   lives := lives g - 1,
                   game_over_message := ''Game Over! No lives left!''\<rparr>
            else g\<lparr>player := (player g)\<lparr>invincible := True, invincible_timer := 2\<rparr>,
                   lives := lives g - 1\<rparr>)
      else g)"
  by (simp add: hit_enemy_def take_damage_def Let_def)

lemma decide_eq:
  "decide g =
     (if \<not> alive (player g) then g\<lparr>game_state := Gameover\<rparr>
      else if list_all collected (coins g)
      then g\<lparr>game_state := Win,
             game_over_message := ''You Won! Score: '' @ str_int (score g)\<rparr>
      else g)"
  by (simp add: decide_def Let_def)

lemmas run_game = update_playing start_music_def poll_keys_def update_sprites_eq
  collect_coins_eq coins_loop_Cons check_collision_def Coin_update_def dist_coin_def
  centerx_def centery_def damage_def hit_enemy_eq decide_eq str_int_def str_nat.simps
  digit_def

subsection \<open>Invincibility, jumps and the animation over a tick\<close>

lemma update_lives_invincible:
  "game_state g = Playing \<Longrightarrow> invincible (player g) \<Longrightarrow> dt < invincible_timer (player g)
   \<Longrightarrow> lives (update dt kb m g) = lives g"
proof -
  assume a: "game_state g = Playing" "invincible (player g)" "dt < invincible_timer (player g)"
  let ?h = "collect_coins dt (update_sprites dt (poll_keys kb (start_music m g)))"
  have "invincible (player ?h)"
    using a by (simp add: Player_update_invincible)
  then have "damage ?h = ?h" by (rule damage_invincible)
  then show ?thesis using a by (simp add: update_playing)
qed

lemma count_down_jump: 
  "count_down dt (p\<lparr>vy := v, jump_requested := j\<rparr>) = (count_down dt p)\<lparr>vy := v, jump_requested := j\<rparr>"
  by (simp add: count_down_eq)

lemma read_input_jump: 
  "read_input (p\<lparr>vy := v, jump_requested := j\<rparr>) = (read_input p)\<lparr>vy := v, jump_requested := j\<rparr>"
  by (simp add: read_input_eq)

lemma Player_update_jump:
  "alive p \<Longrightarrow> jump_requested p \<Longrightarrow> on_ground p
   \<Longrightarrow> Player_update dt ps p = Player_update dt ps (p\<lparr>vy := -12, jump_requested := False\<rparr>)"
  by (simp add: Player_update_phases count_down_jump read_input_jump try_jump_def JUMP_STRENGTH_def)

lemma update_jump_requested:
  "jump_requested (player (update dt kb m g))
     = (jump_requested (player g)
        \<and> (game_state g = Playing \<and> alive (player g) \<longrightarrow> \<not> on_ground (player g)))"
proof (cases "game_state g")
  case Playing
  then show ?thesis by (simp add: update_playing Player_update_jump_requested)
next
  case Menu
  then show ?thesis by (simp add: update_phases Let_def)
next
  case Gameover
  then show ?thesis by (simp add: update_phases Let_def)
next
  case Win
  then show ?thesis by (simp add: update_phases Let_def)
qed

lemma run_append: "run (ts @ us) g = run us (run ts g)"
  by (induction ts arbitrary: g) auto

lemma run_buffered:
  "jump_requested (player g) \<Longrightarrow> \<forall>k<length ts. \<not> on_ground (player (run (take k ts) g))
   \<Longrightarrow> jump_requested (player (run ts g))"
proof (induction ts rule: rev_induct)
  case Nil
  then show ?case by simp
next
  case (snoc t ts)
  have "\<forall>k<length ts. \<not> on_ground (player (run (take k ts) g))"
  proof (intro allI impI)
    fix k assume "k < length ts"
    then show "\<not> on_ground (player (run (take k ts) g))"
      using snoc.prems(2) [rule_format, of k] by simp
  qed
  then have j: "jump_requested (player (run ts g))" using snoc.IH snoc.prems(1) by blast
  have a: "\<not> on_ground (player (run ts g))"
    using snoc.prems(2) [rule_format, of "length ts"] by simp
  obtain dt kb m where t: "t = (dt, kb, m)" by (cases t)
  show ?case using j a by (simp add: run_append t update_jump_requested)
qed

lemma foldl_collide_y_vy:
  "vy (foldl collide_y t ps) = vy t \<or> vy (foldl collide_y t ps) = 0"
proof (induction ps arbitrary: t)
  case Nil
  show ?case by simp
next
  case (Cons q qs)
  have "vy (collide_y t q) = vy t \<or> vy (collide_y t q) = 0"
    by (simp add: collide_y_def)
  then show ?case using Cons.IH [of "collide_y t q"] by auto
qed

lemma move_vy: "vy (move ps s) = vy s \<or> vy (move ps s) = 0"
  using foldl_collide_y_vy [of "(shift_y (check_collision_x ps (shift_x s)))\<lparr>on_ground := False\<rparr>" ps]
  by (simp add: move_phases check_collision_y_def shift_y_def shift_x_def check_collision_x_def)

lemma Player_update_jump_vy:
  "alive p \<Longrightarrow> jump_requested p \<Longrightarrow> on_ground p
   \<Longrightarrow> vy (Player_update dt ps p) = -12 \<or> vy (Player_update dt ps p) = 0"
  using move_vy [of ps "apply_gravity (try_jump (read_input (count_down dt p)))"]
  by (simp add: Player_update_phases apply_gravity_eq try_jump_def JUMP_STRENGTH_def)

lemma update_jump:
  "game_state g = Playing \<Longrightarrow> alive (player g) \<Longrightarrow> jump_requested (player g)
   \<Longrightarrow> on_ground (player g)
   \<Longrightarrow> update dt kb m g
       = update dt kb m (g\<lparr>player := (player g)\<lparr>vy := -12, jump_requested := False\<rparr>\<rparr>)"
proof -
  assume a: "game_state g = Playing" "alive (player g)" "jump_requested (player g)"
    "on_ground (player g)"
  let ?g' = "g\<lparr>player := (player g)\<lparr>vy := -12, jump_requested := False\<rparr>\<rparr>"
  let ?G = "poll_keys kb (start_music m g)"
  have pk: "poll_keys kb (start_music m ?g')
            = ?G\<lparr>player := (player ?G)\<lparr>vy := -12, jump_requested := False\<rparr>\<rparr>"
    using a by (cases "player g") (simp add: start_music_def poll_keys_def)
  have "Player_update dt (platforms ?G) (player ?G)
        = Player_update dt (platforms ?G) ((player ?G)\<lparr>vy := -12, jump_requested := False\<rparr>)"
    using a by (intro Player_update_jump) simp_all
  then have "update_sprites dt (?G\<lparr>player := (player ?G)\<lparr>vy := -12, jump_requested := False\<rparr>\<rparr>)
             = update_sprites dt ?G"
    by (simp add: update_sprites_eq)
  then have "update_sprites dt (poll_keys kb (start_music m ?g')) = update_sprites dt ?G"
    by (simp only: pk)
  moreover have "game_state ?g' = Playing" using a by simp
  ultimately show ?thesis
    using a by (simp only: update_playing)
qed

lemma update_animation_fields:
  "animation_timer (update_animation dt s)
     = (if animation_timer s + dt \<ge> animation_speed s then 0 else animation_timer s + dt)"
  "animation_frame (update_animation dt s)
     = (if animation_timer s + dt \<ge> animation_speed s then animation_frame s + 1
        else animation_frame s)"
  by (simp_all add: update_animation_eq)

lemma try_jump_frame: "try_jump p = p\<lparr>vy := vy (try_jump p), jump_requested := jump_requested (try_jump p)\<rparr>"
  by (simp add: try_jump_def)

subsection \<open>The examples, run\<close>

lemma lander_update:
  "Player_update (1/50) [ground] lander
   = lander\<lparr>rect := \<lparr>rect_x = 104, rect_y = 500, rect_w = 40, rect_h = 50\<rparr>, vx := 4, vy := 0,
        on_ground := True, animation_timer := 1/50\<rparr>"
  by (simp add: lander_def run_Player Player_init_def ground_def)

lemma faller_update:
  "Player_update (1/50) [ground] faller
   = faller\<lparr>rect := \<lparr>rect_x = 100, rect_y = 500, rect_w = 40, rect_h = 50\<rparr>, vy := 0,
        on_ground := True\<rparr>"
  by (simp add: faller_def run_Player Player_init_def ground_def)

lemma standing_update:
  "Player_update (1/50) [ground] standing = (Player_init 100 500)\<lparr>animation_timer := 1/50\<rparr>"
  by (simp add: standing_def run_Player Player_init_def ground_def)

lemma crowded_hit:
  "colliderect (rect (player crowded)) (rect (Enemy_init 110 510 0 800))"
  by (simp add: crowded_def last_coin_def initial_def standing_def Player_init_def Enemy_init_def
      colliderect_def)

lemma hopper_update:
  "Player_update (1/50) [ground] hopper = hopper\<lparr>vy := 1/2, animation_timer := 1/50\<rparr>"
  by (simp add: hopper_def run_Player Player_init_def ground_def)

lemma jumper_update:
  "Player_update (1/50) [ground] (standing\<lparr>jump_requested := True\<rparr>)
   = standing\<lparr>rect := \<lparr>rect_x = 100, rect_y = 488, rect_w = 40, rect_h = 50\<rparr>,
        vy := -12, on_ground := False, animation_timer := 1/50\<rparr>"
  by (simp add: standing_def run_Player Player_init_def ground_def)

subsection \<open>Coins\<close>

lemma check_collision_collected: "collected c \<Longrightarrow> check_collision c p = (False, c)"
  by (simp add: check_collision_def)

lemma check_collision_mono: "collected c \<Longrightarrow> collected (snd (check_collision c p))"
  by (simp add: check_collision_def)

lemma check_collision_repeated:
  "collected c \<Longrightarrow> foldl (\<lambda>c q. snd (check_collision c q)) c qs = c"
  by (induction qs) (simp_all add: check_collision_collected)

lemma coins_loop_collected:
  "list_all collected cs \<Longrightarrow>
   snd (coins_loop dt p cs sc) = sc \<and> list_all collected (fst (coins_loop dt p cs sc))"
  by (induction cs) (simp_all add: coins_loop_Cons check_collision_def Coin_update_def del: coins_loop.simps(2))

lemma coins_loop_length: "length (fst (coins_loop dt p cs sc)) = length cs"
  by (induction cs arbitrary: sc) (simp_all add: coins_loop_Cons del: coins_loop.simps(2))

lemma coins_loop_mono:
  "i < length cs \<Longrightarrow> collected (cs ! i) \<Longrightarrow> collected (fst (coins_loop dt p cs sc) ! i)"
proof (induction cs arbitrary: sc i)
  case Nil
  then show ?case by simp
next
  case (Cons c cs)
  show ?case
  proof (cases i)
    case 0
    with Cons.prems show ?thesis
      by (simp add: coins_loop_Cons check_collision_def Coin_update_def del: coins_loop.simps(2))
  next
    case (Suc j)
    with Cons.prems Cons.IH [of j] show ?thesis
      by (simp add: coins_loop_Cons del: coins_loop.simps(2))
  qed
qed

lemma update_coins:
  "coins (update dt kb m g)
     = (if game_state g = Playing
        then fst (coins_loop dt (player (update_sprites dt (poll_keys kb (start_music m g))))
                   (coins g) (score g))
        else coins g)"
proof (cases "game_state g")
  case Playing
  then show ?thesis by (simp add: update_playing)
next
  case Menu
  then show ?thesis by (simp add: update_phases Let_def)
next
  case Gameover
  then show ?thesis by (simp add: update_phases Let_def)
next
  case Win
  then show ?thesis by (simp add: update_phases Let_def)
qed

lemma Coin_update_dist [simp]: "dist_coin (Coin_update dt c) p = dist_coin c p"
  by (simp add: dist_coin_def Coin_update_def)

lemma sqrt_225: "sqrt 225 = 15"
  by (rule real_sqrt_unique) simp_all

section \<open>Gravity\<close>

text \<open>
  C2. For a body that is not on the ground, \<open>apply_gravity\<close> sets \<open>vy\<close> to
  \<open>min (vy + 0.5) 15\<close>, so that afterwards \<open>vy \<le> 15\<close> whatever it was before; for a body
  on the ground, \<open>apply_gravity\<close> leaves \<open>vy\<close> (and the whole body) unchanged.
\<close>

theorem apply_gravity_clamped:
  "(\<not> on_ground s \<longrightarrow> vy (apply_gravity s) = min (vy s + 0.5) 15 \<and> vy (apply_gravity s) \<le> 15)
   \<and> (on_ground s \<longrightarrow> vy (apply_gravity s) = vy s \<and> apply_gravity s = s)"
  by (simp add: apply_gravity_def GRAVITY_def Let_def min_def)

text \<open>A body falling at 40 units a tick is slowed to 15; one at rest on the ground stays at rest.\<close>

theorem apply_gravity_clamped_witness:
  "\<not> on_ground ((sprite_at 0 0 40 50)\<lparr>vy := 40\<rparr>)
   \<and> vy (apply_gravity ((sprite_at 0 0 40 50)\<lparr>vy := 40\<rparr>)) = 15
   \<and> on_ground ((sprite_at 0 0 40 50)\<lparr>on_ground := True\<rparr>)
   \<and> vy (apply_gravity ((sprite_at 0 0 40 50)\<lparr>on_ground := True\<rparr>)) = 0"
  using apply_gravity_clamped [of "(sprite_at 0 0 40 50)\<lparr>vy := 40\<rparr>"]
        apply_gravity_clamped [of "(sprite_at 0 0 40 50)\<lparr>on_ground := True\<rparr>"]
  by (simp add: sprite_at_def)

section \<open>The vertical collision pass\<close>



section \<open>Winning and losing\<close>

text \<open>
  C1. In the state "playing", at the end of an update tick after which every coin is
  collected: if the player is alive, the session is in the state "win" and its message
  is "You Won! Score: " followed by the final score; if the player is not alive (also
  when it died in the tick that collected the last coin), the session is in the state
  "gameover", not "win".
\<close>

theorem update_win_or_gameover:
  "game_state g = Playing \<Longrightarrow> list_all collected (coins (update dt kb m g)) \<Longrightarrow>
   (alive (player (update dt kb m g)) \<longrightarrow>
      game_state (update dt kb m g) = Win
      \<and> game_over_message (update dt kb m g)
          = ''You Won! Score: '' @ str_int (score (update dt kb m g)))
   \<and> (\<not> alive (player (update dt kb m g)) \<longrightarrow> game_state (update dt kb m g) = Gameover)"
proof -
  assume pl: "game_state g = Playing"
  define h where "h = damage (collect_coins dt (update_sprites dt (poll_keys kb (start_music m g))))"
  have u: "update dt kb m g = decide h"
    using pl by (simp add: update_playing h_def)
  assume "list_all collected (coins (update dt kb m g))"
  then have c: "list_all collected (coins h)" by (simp add: u)
  show ?thesis
    using c by (simp add: u decide_state decide_message)
qed

text \<open>
  The player stands on the last coin and wins with 10 points; with one life left and an
  enemy walking into it in the same tick, the coin is still collected, but the session
  ends in "gameover".
\<close>

lemma last_coin_win:
  "update (1/50) no_keys True last_coin
   = last_coin\<lparr>music_started := True,
        player := (Player_init 100 500)\<lparr>animation_timer := 0.02\<rparr>,
        coins := [(Coin_init 120 525)\<lparr>collected := True, coin_frame := 0.1\<rparr>], score := 10,
        game_state := Win, game_over_message := ''You Won! Score: 10''\<rparr>"
  by (simp del: coins_loop.simps(2)
      add: run_game run_Player last_coin_def initial_def standing_def no_keys_def
        Player_init_def Coin_init_def ground_def)

lemma last_life_over:
  "update (1/50) no_keys True last_life
   = last_life\<lparr>music_started := True,
        player := (Player_init 100 500)\<lparr>animation_timer := 0.02, alive := False,
                     invincible := True, invincible_timer := 2\<rparr>,
        enemies := [(Enemy_init 110 510 0 800)
                      \<lparr>rect := \<lparr>rect_x = 112, rect_y = 510, rect_w = 35, rect_h = 40\<rparr>,
                       vy := 0.5, animation_timer := 0.02\<rparr>],
        coins := [(Coin_init 120 525)\<lparr>collected := True, coin_frame := 0.1\<rparr>], score := 10,
        lives := 0,
        game_state := Gameover, game_over_message := ''Game Over! No lives left!''\<rparr>"
  by (simp del: coins_loop.simps(2)
      add: run_game run_Player run_Enemy last_life_def last_coin_def initial_def standing_def
        no_keys_def Player_init_def Coin_init_def Enemy_init_def ground_def)

theorem update_win_or_gameover_witness:
  "game_state last_coin = Playing
   \<and> list_all collected (coins (update (1/50) no_keys True last_coin))
   \<and> alive (player (update (1/50) no_keys True last_coin))
   \<and> game_state (update (1/50) no_keys True last_coin) = Win
   \<and> game_over_message (update (1/50) no_keys True last_coin) = ''You Won! Score: 10''
   \<and> game_state last_life = Playing
   \<and> \<not> collected (hd (coins last_life))
   \<and> list_all collected (coins (update (1/50) no_keys True last_life))
   \<and> \<not> alive (player (update (1/50) no_keys True last_life))
   \<and> game_state (update (1/50) no_keys True last_life) = Gameover"
proof -
  have p1: "game_state last_coin = Playing"
    by (simp add: last_coin_def)
  have c1: "list_all collected (coins (update (1/50) no_keys True last_coin))"
    by (simp add: last_coin_win)
  have a1: "alive (player (update (1/50) no_keys True last_coin))"
    by (simp add: last_coin_win Player_init_def)
  have s1: "str_int (score (update (1/50) no_keys True last_coin)) = ''10''"
    by (simp add: last_coin_win str_int_def str_nat.simps digit_def)
  have p2: "game_state last_life = Playing"
    by (simp add: last_life_def last_coin_def)
  have n2: "\<not> collected (hd (coins last_life))"
    by (simp add: last_life_def last_coin_def Coin_init_def)
  have c2: "list_all collected (coins (update (1/50) no_keys True last_life))"
    by (simp add: last_life_over)
  have a2: "\<not> alive (player (update (1/50) no_keys True last_life))"
    by (simp add: last_life_over)
  show ?thesis
    using p1 c1 a1 s1 p2 n2 c2 a2
      update_win_or_gameover [OF p1 c1] update_win_or_gameover [OF p2 c2]
    by simp
qed

section \<open>Damage and invincibility\<close>

text \<open>
  C4. \<open>take_damage\<close> returns false and leaves the player as it is when the player is
  invincible; otherwise it makes the player invincible with a timer of 2.0 and returns
  true, so that a second call returns false and changes nothing. In the session: the
  loop over the enemies takes exactly one life from a player that is not invincible,
  however many enemies overlap it, and none from an invincible player; while less than
  the invincibility time has passed, \<open>Player.update\<close> keeps the player invincible (and
  takes the time of the tick off the timer of a living player), and a tick of \<open>update\<close>
  leaves the lives unchanged.
\<close>

theorem take_damage_window:
  "(invincible p \<longrightarrow> take_damage p = (False, p))
   \<and> (\<not> invincible p \<longrightarrow>
        take_damage p = (True, p\<lparr>invincible := True, invincible_timer := 2\<rparr>)
        \<and> \<not> fst (take_damage (snd (take_damage p)))
        \<and> snd (take_damage (snd (take_damage p))) = snd (take_damage p))
   \<and> (\<not> invincible (player g) \<and> (\<exists>e\<in>set es. colliderect (rect (player g)) (rect e)) \<longrightarrow>
        lives (foldl hit_enemy g es) = lives g - 1
        \<and> invincible (player (foldl hit_enemy g es))
        \<and> invincible_timer (player (foldl hit_enemy g es)) = 2)
   \<and> (invincible (player g) \<longrightarrow> foldl hit_enemy g es = g)
   \<and> (invincible p \<and> dt < invincible_timer p \<longrightarrow>
        invincible (Player_update dt ps p)
        \<and> invincible_timer (Player_update dt ps p)
            = (if alive p then invincible_timer p - dt else invincible_timer p))
   \<and> (game_state g = Playing \<and> invincible (player g) \<and> dt < invincible_timer (player g) \<longrightarrow>
        lives (update dt kb m g) = lives g)"
proof (intro conjI impI)
  show "take_damage p = (False, p)" if "invincible p"
    using that by (simp add: take_damage_def)
  show "take_damage p = (True, p\<lparr>invincible := True, invincible_timer := 2\<rparr>)"
    if "\<not> invincible p"
    using that by (simp add: take_damage_def)
  show "\<not> fst (take_damage (snd (take_damage p)))" if "\<not> invincible p"
    using that by (simp add: take_damage_def)
  show "snd (take_damage (snd (take_damage p))) = snd (take_damage p)" if "\<not> invincible p"
    using that by (simp add: take_damage_def)
  show "foldl hit_enemy g es = g" if "invincible (player g)"
    using that by (rule foldl_hit_enemy_invincible)
  show "invincible (Player_update dt ps p)" if "invincible p \<and> dt < invincible_timer p"
    using that by (simp add: Player_update_invincible)
  show "invincible_timer (Player_update dt ps p)
          = (if alive p then invincible_timer p - dt else invincible_timer p)"
    if "invincible p \<and> dt < invincible_timer p"
    using that by (simp add: Player_update_invincible_timer)
  show "lives (update dt kb m g) = lives g"
    if "game_state g = Playing \<and> invincible (player g) \<and> dt < invincible_timer (player g)"
    using that by (simp add: update_lives_invincible)
next
  assume h: "\<not> invincible (player g) \<and> (\<exists>e\<in>set es. colliderect (rect (player g)) (rect e))"
  then have "lives (foldl hit_enemy g es) = lives g - 1
       \<and> invincible (player (foldl hit_enemy g es))
       \<and> invincible_timer (player (foldl hit_enemy g es)) = 2"
    using foldl_hit_enemy_once [of g es] by blast
  then show "lives (foldl hit_enemy g es) = lives g - 1"
    "invincible (player (foldl hit_enemy g es))"
    "invincible_timer (player (foldl hit_enemy g es)) = 2"
    by simp_all
qed

text \<open>
  The standing player is hit by two enemies at once and loses one of its three lives;
  1/50 s later it is still invincible and a tick takes no life.
\<close>

theorem take_damage_window_witness:
  "\<not> invincible standing
   \<and> take_damage standing = (True, standing\<lparr>invincible := True, invincible_timer := 2\<rparr>)
   \<and> take_damage (standing\<lparr>invincible := True, invincible_timer := 2\<rparr>)
       = (False, standing\<lparr>invincible := True, invincible_timer := 2\<rparr>)
   \<and> lives crowded = 3
   \<and> length (filter (\<lambda>e. colliderect (rect (player crowded)) (rect e)) (enemies crowded)) = 2
   \<and> lives (foldl hit_enemy crowded (enemies crowded)) = 2
   \<and> invincible (Player_update (1/50) [ground] (standing\<lparr>invincible := True, invincible_timer := 2\<rparr>))
   \<and> lives (update (1/50) no_keys True (foldl hit_enemy crowded (enemies crowded))) = 2"
proof -
  let ?hurt = "standing\<lparr>invincible := True, invincible_timer := 2\<rparr>"
  let ?g = "foldl hit_enemy crowded (enemies crowded)"
  have n: "\<not> invincible standing" by (simp add: standing_def Player_init_def)
  have i: "invincible ?hurt" "(1/50) < invincible_timer ?hurt" by simp_all
  have np: "\<not> invincible (player crowded)"
    by (simp add: crowded_def last_coin_def initial_def standing_def Player_init_def)
  have ex: "\<exists>e\<in>set (enemies crowded). colliderect (rect (player crowded)) (rect e)"
    using crowded_hit by (simp add: crowded_def)
  have two: "length (filter (\<lambda>e. colliderect (rect (player crowded)) (rect e)) (enemies crowded)) = 2"
    by (simp add: crowded_def last_coin_def initial_def standing_def Player_init_def Enemy_init_def
      colliderect_def)
  have l3: "lives crowded = 3" by (simp add: crowded_def last_coin_def initial_def)
  have pl: "game_state ?g = Playing" by (simp add: crowded_def last_coin_def)
  note first = take_damage_window [where p = standing and g = crowded and es = "enemies crowded"
      and dt = "1/50" and ps = "[ground]" and kb = no_keys and m = True]
  have hit: "lives ?g = 2" "invincible (player ?g)" "invincible_timer (player ?g) = 2"
    using first np ex l3 by simp_all
  note second = take_damage_window [where p = ?hurt and g = ?g and es = "[]"
      and dt = "1/50" and ps = "[ground]" and kb = no_keys and m = True]
  show ?thesis
    using n i two l3 hit pl first second by simp
qed

section \<open>The patrol\<close>

text \<open>
  C8. \<open>Enemy.update\<close> steers first: if the left edge of the body is at or left of
  \<open>patrol_left\<close>, \<open>vx\<close> becomes \<open>speed\<close> and the enemy faces right; else if the right edge
  is at or right of \<open>patrol_right\<close>, \<open>vx\<close> becomes \<open>- speed\<close> and the enemy faces left;
  otherwise nothing changes. Gravity and the move are applied to the steered body (and
  keep its \<open>vx\<close> and facing), and the animation advances whatever the case.
\<close>

theorem enemy_steers_first:
  "Enemy_update dt ps e = update_animation dt (move ps (apply_gravity (steer e)))
   \<and> (rect_left (rect e) \<le> patrol_left e \<longrightarrow> steer e = e\<lparr>vx := speed e, facing_right := True\<rparr>)
   \<and> (\<not> rect_left (rect e) \<le> patrol_left e \<and> rect_right (rect e) \<ge> patrol_right e \<longrightarrow>
        steer e = e\<lparr>vx := - speed e, facing_right := False\<rparr>)
   \<and> (\<not> rect_left (rect e) \<le> patrol_left e \<and> \<not> rect_right (rect e) \<ge> patrol_right e \<longrightarrow>
        steer e = e)
   \<and> vx (Enemy_update dt ps e) = vx (steer e)
   \<and> facing_right (Enemy_update dt ps e) = facing_right (steer e)
   \<and> animation_timer (Enemy_update dt ps e) = animation_timer (update_animation dt e)
   \<and> animation_frame (Enemy_update dt ps e) = animation_frame (update_animation dt e)"
proof (intro conjI impI)
  show "Enemy_update dt ps e = update_animation dt (move ps (apply_gravity (steer e)))"
    by (rule Enemy_update_phases)
  show "steer e = e\<lparr>vx := speed e, facing_right := True\<rparr>"
    if "rect_left (rect e) \<le> patrol_left e"
    using that by (simp add: steer_def)
  show "steer e = e\<lparr>vx := - speed e, facing_right := False\<rparr>"
    if "\<not> rect_left (rect e) \<le> patrol_left e \<and> rect_right (rect e) \<ge> patrol_right e"
    using that by (simp add: steer_def)
  show "steer e = e"
    if "\<not> rect_left (rect e) \<le> patrol_left e \<and> \<not> rect_right (rect e) \<ge> patrol_right e"
    using that by (simp add: steer_def)
  show "vx (Enemy_update dt ps e) = vx (steer e)"
    by (simp add: Enemy_update_phases)
  show "facing_right (Enemy_update dt ps e) = facing_right (steer e)"
    by (simp add: Enemy_update_phases)
  have a: "animation_timer (steer e) = animation_timer e"
    "animation_frame (steer e) = animation_frame e"
    "animation_speed (steer e) = animation_speed e"
    by (simp_all add: steer_def)
  show "animation_timer (Enemy_update dt ps e) = animation_timer (update_animation dt e)"
    by (simp add: Enemy_update_phases update_animation_fields a)
  show "animation_frame (Enemy_update dt ps e) = animation_frame (update_animation dt e)"
    by (simp add: Enemy_update_phases update_animation_fields a)
qed

text \<open>
  An enemy walking left at the left bound turns right, one at the right bound turns
  left, one in between keeps walking left.
\<close>

theorem enemy_steers_first_witness:
  "rect_left (rect ((Enemy_init 150 400 150 330)\<lparr>vx := -2, facing_right := False\<rparr>)) \<le> 150
   \<and> vx (Enemy_update (1/50) [ledge] ((Enemy_init 150 400 150 330)\<lparr>vx := -2, facing_right := False\<rparr>)) = 2
   \<and> facing_right (Enemy_update (1/50) [ledge] ((Enemy_init 150 400 150 330)\<lparr>vx := -2, facing_right := False\<rparr>))
   \<and> rect_right (rect (Enemy_init 295 400 150 330)) \<ge> 330
   \<and> vx (Enemy_update (1/50) [ledge] (Enemy_init 295 400 150 330)) = -2
   \<and> \<not> facing_right (Enemy_update (1/50) [ledge] (Enemy_init 295 400 150 330))
   \<and> vx (Enemy_update (1/50) [ledge] ((Enemy_init 200 400 150 330)\<lparr>vx := -2, facing_right := False\<rparr>)) = -2
   \<and> \<not> facing_right (Enemy_update (1/50) [ledge] ((Enemy_init 200 400 150 330)\<lparr>vx := -2, facing_right := False\<rparr>))"
  using enemy_steers_first [of "1/50" "[ledge]" "(Enemy_init 150 400 150 330)\<lparr>vx := -2, facing_right := False\<rparr>"]
    enemy_steers_first [of "1/50" "[ledge]" "Enemy_init 295 400 150 330"]
    enemy_steers_first [of "1/50" "[ledge]" "(Enemy_init 200 400 150 330)\<lparr>vx := -2, facing_right := False\<rparr>"]
  by (simp add: Enemy_init_def rect_left_def rect_right_def)

section \<open>The player's animation\<close>

text \<open>
  C7, as the code has it. In an update tick of a living player the animation is advanced
  (by \<open>update_animation\<close>) if and only if, after the move of that tick, \<open>vx \<noteq> 0\<close> or the
  player is airborne (\<open>on_ground\<close> false); otherwise animation timer and frame counter
  are unchanged. \<open>vx \<noteq> 0\<close> holds exactly when a direction key is held.
\<close>

theorem animation_advances_on_vx:
  "alive p \<Longrightarrow>
   (vx (Player_update dt ps p) \<noteq> 0 \<or> \<not> on_ground (Player_update dt ps p) \<longrightarrow>
      animation_timer (Player_update dt ps p) = animation_timer (update_animation dt p)
      \<and> animation_frame (Player_update dt ps p) = animation_frame (update_animation dt p))
   \<and> (vx (Player_update dt ps p) = 0 \<and> on_ground (Player_update dt ps p) \<longrightarrow>
      animation_timer (Player_update dt ps p) = animation_timer p
      \<and> animation_frame (Player_update dt ps p) = animation_frame p)
   \<and> (vx (Player_update dt ps p) \<noteq> 0 \<longleftrightarrow> move_left p \<or> move_right p)"
proof -
  assume a: "alive p"
  let ?q = "move ps (apply_gravity (try_jump (read_input (count_down dt p))))"
  have q: "Player_update dt ps p = check_fall (animate dt ?q)"
    using a by (simp add: Player_update_phases)
  have t: "animation_timer ?q = animation_timer p" by simp
  have f: "animation_frame ?q = animation_frame p" by simp
  have sp: "animation_speed ?q = animation_speed p" by simp
  show ?thesis
    by (simp add: q animate_def update_animation_fields t f sp)
qed

text \<open>
  A player that lands while walking right is animated; one that lands with no key held
  is not.
\<close>

theorem animation_advances_on_vx_witness:
  "alive lander
   \<and> vx (Player_update (1/50) [ground] lander) \<noteq> 0
   \<and> on_ground (Player_update (1/50) [ground] lander)
   \<and> animation_timer (Player_update (1/50) [ground] lander) = 1/50
   \<and> alive faller
   \<and> vx (Player_update (1/50) [ground] faller) = 0
   \<and> on_ground (Player_update (1/50) [ground] faller)
   \<and> animation_timer (Player_update (1/50) [ground] faller) = animation_timer faller
   \<and> animation_frame (Player_update (1/50) [ground] faller) = animation_frame faller"
proof -
  have a: "alive lander" "alive faller"
    by (simp_all add: lander_def faller_def Player_init_def)
  have l: "vx (Player_update (1/50) [ground] lander) \<noteq> 0"
    "on_ground (Player_update (1/50) [ground] lander)"
    by (simp_all add: lander_update)
  have f: "vx (Player_update (1/50) [ground] faller) = 0"
    "on_ground (Player_update (1/50) [ground] faller)"
    by (simp_all add: faller_update) (simp add: faller_def Player_init_def)
  have u: "animation_timer (update_animation (1/50) lander) = 1/50"
    by (simp add: update_animation_eq lander_def Player_init_def)
  show ?thesis
    using a l f u animation_advances_on_vx [OF a(1), of "1/50" "[ground]"] animation_advances_on_vx [OF a(2), of "1/50" "[ground]"]
    by simp
qed

text \<open>
  C7 as stated, with \<open>vy\<close> in the place of \<open>vx\<close>, fails. Read on the state after the
  move: a player that lands while walking right has \<open>vy = 0\<close> and is on the ground, yet
  its animation timer has advanced. Read on the state before the tick: a player standing
  on the ground with \<open>vy = 0\<close> has its animation timer advanced all the same, since the
  collision pass of that tick finds no overlap and leaves it airborne.
\<close>

theorem animation_on_vy_counterexample:
  "alive lander
   \<and> vy (Player_update (1/50) [ground] lander) = 0
   \<and> on_ground (Player_update (1/50) [ground] lander)
   \<and> animation_timer (Player_update (1/50) [ground] lander) \<noteq> animation_timer lander
   \<and> alive standing \<and> vy standing = 0 \<and> on_ground standing
   \<and> animation_timer (Player_update (1/50) [ground] standing) \<noteq> animation_timer standing"
  by (simp add: lander_update standing_update) (simp add: lander_def standing_def Player_init_def)

section \<open>The buffered jump\<close>

text \<open>
  C10. While the player is airborne, \<open>Player.update\<close> leaves a set \<open>jump_requested\<close> set;
  over any run of ticks at whose starts the player is airborne the flag stays set. In
  the first tick that the living player starts on the ground, the jump executes: the
  tick is the tick of the player with \<open>vy = -12\<close> and the flag cleared, the flag is clear
  afterwards, and \<open>vy\<close> is \<open>-12\<close> afterwards unless the player bumped its head (\<open>vy = 0\<close>).
\<close>

theorem jump_is_buffered:
  "(jump_requested p \<and> \<not> on_ground p \<longrightarrow> jump_requested (Player_update dt ps p))
   \<and> (alive p \<and> jump_requested p \<and> on_ground p \<longrightarrow>
        Player_update dt ps p = Player_update dt ps (p\<lparr>vy := -12, jump_requested := False\<rparr>)
        \<and> \<not> jump_requested (Player_update dt ps p)
        \<and> (vy (Player_update dt ps p) = -12 \<or> vy (Player_update dt ps p) = 0))
   \<and> (jump_requested (player g) \<and> (\<forall>k<length ts. \<not> on_ground (player (run (take k ts) g)))
        \<longrightarrow> jump_requested (player (run ts g)))
   \<and> (game_state g = Playing \<and> alive (player g) \<and> jump_requested (player g)
        \<and> on_ground (player g) \<longrightarrow>
        update dt kb m g
          = update dt kb m (g\<lparr>player := (player g)\<lparr>vy := -12, jump_requested := False\<rparr>\<rparr>)
        \<and> \<not> jump_requested (player (update dt kb m g)))"
proof (intro conjI impI)
  show "jump_requested (Player_update dt ps p)" if "jump_requested p \<and> \<not> on_ground p"
    using that by (simp add: Player_update_jump_requested)
  show "Player_update dt ps p = Player_update dt ps (p\<lparr>vy := -12, jump_requested := False\<rparr>)"
    if "alive p \<and> jump_requested p \<and> on_ground p"
    using that by (simp add: Player_update_jump)
  show "\<not> jump_requested (Player_update dt ps p)" if "alive p \<and> jump_requested p \<and> on_ground p"
    using that by (simp add: Player_update_jump_requested)
  show "vy (Player_update dt ps p) = -12 \<or> vy (Player_update dt ps p) = 0"
    if "alive p \<and> jump_requested p \<and> on_ground p"
    using that by (simp add: Player_update_jump_vy)
  show "jump_requested (player (run ts g))"
    if "jump_requested (player g) \<and> (\<forall>k<length ts. \<not> on_ground (player (run (take k ts) g)))"
    using that run_buffered [of g ts] by blast
  show "update dt kb m g
          = update dt kb m (g\<lparr>player := (player g)\<lparr>vy := -12, jump_requested := False\<rparr>\<rparr>)"
    if "game_state g = Playing \<and> alive (player g) \<and> jump_requested (player g)
        \<and> on_ground (player g)"
    using that by (simp add: update_jump)
  show "\<not> jump_requested (player (update dt kb m g))"
    if "game_state g = Playing \<and> alive (player g) \<and> jump_requested (player g)
        \<and> on_ground (player g)"
    using that by (simp add: update_jump_requested)
qed

text \<open>
  A jump asked for in the air is kept over a tick, for the player alone and in the
  session; asked for on the ground it executes and leaves \<open>vy = -12\<close>.
\<close>

theorem jump_is_buffered_witness:
  "jump_requested hopper \<and> \<not> on_ground hopper
   \<and> jump_requested (Player_update (1/50) [ground] hopper)
   \<and> alive (standing\<lparr>jump_requested := True\<rparr>)
   \<and> on_ground (standing\<lparr>jump_requested := True\<rparr>)
   \<and> \<not> jump_requested (Player_update (1/50) [ground] (standing\<lparr>jump_requested := True\<rparr>))
   \<and> vy (Player_update (1/50) [ground] (standing\<lparr>jump_requested := True\<rparr>)) = -12
   \<and> jump_requested (player buffered) \<and> \<not> on_ground (player buffered)
   \<and> jump_requested (player (run [(1/50, no_keys, True)] buffered))
   \<and> game_state ready = Playing
   \<and> \<not> jump_requested (player (update (1/50) no_keys True ready))"
proof -
  have h: "jump_requested hopper" "\<not> on_ground hopper"
    by (simp_all add: hopper_def Player_init_def)
  have s: "alive (standing\<lparr>jump_requested := True\<rparr>)"
    "jump_requested (standing\<lparr>jump_requested := True\<rparr>)"
    "on_ground (standing\<lparr>jump_requested := True\<rparr>)"
    by (simp_all add: standing_def Player_init_def)
  have v: "vy (Player_update (1/50) [ground] (standing\<lparr>jump_requested := True\<rparr>)) = -12"
    by (simp add: jumper_update)
  have b: "jump_requested (player buffered)" "\<not> on_ground (player buffered)"
    by (simp_all add: buffered_def hopper_def Player_init_def)
  have bq: "\<forall>k<length [(1/50 :: real, no_keys, True)]. \<not> on_ground (player (run (take k [(1/50, no_keys, True)]) buffered))"
    using b by simp
  have r: "game_state ready = Playing" "alive (player ready)" "jump_requested (player ready)"
    "on_ground (player ready)"
    by (simp_all add: ready_def last_coin_def standing_def Player_init_def)
  note one = jump_is_buffered [where p = hopper and dt = "1/50" and ps = "[ground]" and g = buffered
      and ts = "[(1/50, no_keys, True)]" and kb = no_keys and m = True]
  note two = jump_is_buffered [where p = "standing\<lparr>jump_requested := True\<rparr>" and dt = "1/50"
      and ps = "[ground]" and g = ready and ts = "[]" and kb = no_keys and m = True]
  have j1: "jump_requested (Player_update (1/50) [ground] hopper)"
    using one h by blast
  have j2: "jump_requested (player (run [(1/50, no_keys, True)] buffered))"
    using one b bq by blast
  have j3: "\<not> jump_requested (Player_update (1/50) [ground] (standing\<lparr>jump_requested := True\<rparr>))"
    using two s by blast
  have j4: "\<not> jump_requested (player (update (1/50) no_keys True ready))"
    using two r by blast
  show ?thesis
    using h s v b r j1 j2 j3 j4 by simp
qed

section \<open>Coins\<close>

text \<open>
  C5. The flag \<open>collected\<close> of a coin only goes from false to true. On a collected coin,
  \<open>check_collision\<close> returns false and leaves the coin as it is, for every player and
  however often it is called; \<open>Coin.update\<close> keeps the flag; the loop over the coins adds
  nothing to the score for a collected coin, and nothing at all when every coin is
  collected. Over a tick of \<open>update\<close>, in any state, the list of coins keeps its length
  and every collected coin stays collected; a key press leaves the coins alone.
\<close>

theorem collected_is_monotonic:
  "(collected c \<longrightarrow>
      check_collision c p = (False, c)
      \<and> foldl (\<lambda>c q. snd (check_collision c q)) c qs = c
      \<and> collected (Coin_update dt c)
      \<and> coins_loop dt p [c] sc = ([Coin_update dt c], sc))
   \<and> (list_all collected cs \<longrightarrow>
        snd (coins_loop dt p cs sc) = sc \<and> list_all collected (fst (coins_loop dt p cs sc)))
   \<and> length (coins (update dt kb m g)) = length (coins g)
   \<and> (\<forall>i<length (coins g).
        collected (coins g ! i) \<longrightarrow> collected (coins (update dt kb m g) ! i))
   \<and> coins (on_key_down k g) = coins g"
proof (intro conjI impI allI)
  show "check_collision c p = (False, c)" if "collected c"
    using that by (rule check_collision_collected)
  show "foldl (\<lambda>c q. snd (check_collision c q)) c qs = c" if "collected c"
    using that by (rule check_collision_repeated)
  show "collected (Coin_update dt c)" if "collected c"
    using that by (simp add: Coin_update_def)
  show "coins_loop dt p [c] sc = ([Coin_update dt c], sc)" if "collected c"
    using that by (simp add: check_collision_def Coin_update_def)
  show "snd (coins_loop dt p cs sc) = sc" if "list_all collected cs"
    using that coins_loop_collected by blast
  show "list_all collected (fst (coins_loop dt p cs sc))" if "list_all collected cs"
    using that coins_loop_collected by blast
  show "length (coins (update dt kb m g)) = length (coins g)"
    by (simp add: update_coins coins_loop_length)
  show "collected (coins (update dt kb m g) ! i)"
    if "i < length (coins g)" "collected (coins g ! i)" for i
    using that by (simp add: update_coins coins_loop_mono)
  show "coins (on_key_down k g) = coins g"
    by (simp add: on_key_down_def)
qed

text \<open>
  A collected coin at distance 15 of the player, which would be picked up if it were
  not collected, stays as it is over three calls and gives no score; the coin collected
  in the first tick of the session \<open>last_coin\<close> is still collected after a second tick.
\<close>

theorem collected_is_monotonic_witness:
  "collected ((Coin_init 250 420)\<lparr>collected := True\<rparr>)
   \<and> dist_coin ((Coin_init 250 420)\<lparr>collected := True\<rparr>) (Player_init 239 407) = 15
   \<and> check_collision ((Coin_init 250 420)\<lparr>collected := True\<rparr>) (Player_init 239 407)
       = (False, (Coin_init 250 420)\<lparr>collected := True\<rparr>)
   \<and> foldl (\<lambda>c q. snd (check_collision c q)) ((Coin_init 250 420)\<lparr>collected := True\<rparr>)
        [Player_init 239 407, Player_init 239 407, Player_init 100 400]
       = (Coin_init 250 420)\<lparr>collected := True\<rparr>
   \<and> snd (coins_loop (1/50) (Player_init 239 407) [(Coin_init 250 420)\<lparr>collected := True\<rparr>] 10) = 10
   \<and> 0 < length (coins (update (1/50) no_keys True last_coin))
   \<and> collected (coins (update (1/50) no_keys True last_coin) ! 0)
   \<and> collected (coins (update (1/50) no_keys True (update (1/50) no_keys True last_coin)) ! 0)"
proof -
  let ?c = "(Coin_init 250 420)\<lparr>collected := True\<rparr>"
  have c: "collected ?c" "list_all collected [?c]" by simp_all
  have d: "dist_coin ?c (Player_init 239 407) = 15"
    by (simp add: dist_coin_def Coin_init_def Player_init_def centerx_def centery_def sqrt_225)
  let ?g = "update (1/50) no_keys True last_coin"
  have l: "0 < length (coins ?g)" "collected (coins ?g ! 0)"
    by (simp_all add: last_coin_win)
  note a = collected_is_monotonic [where c = ?c and p = "Player_init 239 407" and dt = "1/50" and sc = 10
      and qs = "[Player_init 239 407, Player_init 239 407, Player_init 100 400]"
      and cs = "[?c]" and g = ?g and kb = no_keys and m = True and k = SPACE]
  have "collected (coins (update (1/50) no_keys True ?g) ! 0)"
    using a l by blast
  then show ?thesis
    using c d l a by (simp add: check_collision_def)
qed

text \<open>
  C6. For a coin that is not collected, \<open>check_collision\<close> takes the Euclidean distance
  between the coin's centre and the centre of the player's rectangle, and collects the
  coin (sets \<open>collected\<close>, returns true, and the loop over the coins adds 10 to the
  score) exactly when that distance is less than the radius plus 20; otherwise it
  returns false and changes nothing. At distance 15 from a coin of radius 12 the coin
  is collected.
\<close>

theorem coin_collected_by_distance:
  "\<not> collected c \<longrightarrow>
     dist_coin c p = sqrt (real_of_int ((coin_x c - centerx (rect p))\<^sup>2
                                  + (coin_y c - centery (rect p))\<^sup>2))
     \<and> (dist_coin c p < real_of_int (radius c + 20) \<longrightarrow>
          check_collision c p = (True, c\<lparr>collected := True\<rparr>)
          \<and> coins_loop dt p [c] sc = ([(Coin_update dt c)\<lparr>collected := True\<rparr>], sc + 10))
     \<and> (\<not> dist_coin c p < real_of_int (radius c + 20) \<longrightarrow>
          check_collision c p = (False, c)
          \<and> coins_loop dt p [c] sc = ([Coin_update dt c], sc))
     \<and> (dist_coin c p = 15 \<and> radius c = 12 \<longrightarrow>
          fst (check_collision c p) \<and> collected (snd (check_collision c p))
          \<and> snd (coins_loop dt p [c] sc) = sc + 10)"
proof (intro conjI impI)
  assume n: "\<not> collected c"
  show "dist_coin c p = sqrt (real_of_int ((coin_x c - centerx (rect p))\<^sup>2
                                  + (coin_y c - centery (rect p))\<^sup>2))"
    by (simp add: dist_coin_def)
  have u: "\<not> collected (Coin_update dt c)" "radius (Coin_update dt c) = radius c"
    using n by (simp_all add: Coin_update_def)
  {
    assume l: "dist_coin c p < real_of_int (radius c + 20)"
    show "check_collision c p = (True, c\<lparr>collected := True\<rparr>)"
      using n l by (simp add: check_collision_def)
    show "coins_loop dt p [c] sc = ([(Coin_update dt c)\<lparr>collected := True\<rparr>], sc + 10)"
      using u l by (simp add: check_collision_def)
  }
  {
    assume l: "\<not> dist_coin c p < real_of_int (radius c + 20)"
    show "check_collision c p = (False, c)"
      using n l by (simp add: check_collision_def)
    show "coins_loop dt p [c] sc = ([Coin_update dt c], sc)"
      using u l by (simp add: check_collision_def)
  }
  {
    assume l: "dist_coin c p = 15 \<and> radius c = 12"
    show "fst (check_collision c p)" using n l by (simp add: check_collision_def)
    show "collected (snd (check_collision c p))" using n l by (simp add: check_collision_def)
    show "snd (coins_loop dt p [c] sc) = sc + 10"
      using u l by (simp add: check_collision_def)
  }
qed

text \<open>
  The first coin of the level, with the player's centre 9 to the right of and 12 below
  the coin's (distance 15), and with the player at its starting place (too far).
\<close>

theorem coin_collected_by_distance_witness:
  "\<not> collected (Coin_init 250 420)
   \<and> dist_coin (Coin_init 250 420) (Player_init 239 407) = 15
   \<and> radius (Coin_init 250 420) = 12
   \<and> check_collision (Coin_init 250 420) (Player_init 239 407)
       = (True, (Coin_init 250 420)\<lparr>collected := True\<rparr>)
   \<and> snd (coins_loop (1/50) (Player_init 239 407) [Coin_init 250 420] 0) = 10
   \<and> \<not> dist_coin (Coin_init 250 420) (Player_init 100 400) < 32
   \<and> check_collision (Coin_init 250 420) (Player_init 100 400) = (False, Coin_init 250 420)
   \<and> coins_loop (1/50) (Player_init 100 400) [Coin_init 250 420] 0
       = ([Coin_update (1/50) (Coin_init 250 420)], 0)"
proof -
  have n: "\<not> collected (Coin_init 250 420)" "radius (Coin_init 250 420) = 12"
    by (simp_all add: Coin_init_def)
  have d: "dist_coin (Coin_init 250 420) (Player_init 239 407) = 15"
    by (simp add: dist_coin_def Coin_init_def Player_init_def centerx_def centery_def sqrt_225)
  have "(32::real)\<^sup>2 \<le> 16925" by simp
  then have "32 \<le> sqrt 16925" by (rule real_le_rsqrt)
  then have f: "\<not> dist_coin (Coin_init 250 420) (Player_init 100 400) < 32"
    by (simp add: dist_coin_def Coin_init_def Player_init_def centerx_def centery_def)
  show ?thesis
    using n d f
      coin_collected_by_distance [of "Coin_init 250 420" "Player_init 239 407" "1/50" 0]
      coin_collected_by_distance [of "Coin_init 250 420" "Player_init 100 400" "1/50" 0]
    by simp
qed

section \<open>Loading the level\<close>

text \<open>
  C9. Calling \<open>init_level\<close> twice in a row gives the session that one call gives: the
  same six platforms in the same order, the same three enemies (rectangles and patrol
  bounds), the same six coins, none collected, the player at its starting place, score
  0, three lives and an empty message; and these contents do not depend on the session
  \<open>init_level\<close> was called in.
\<close>

theorem init_level_twice:
  "init_level (init_level g) = init_level g
   \<and> platforms (init_level g)
       = [\<lparr>rect_x = 0, rect_y = 550, rect_w = 800, rect_h = 50\<rparr>,
          \<lparr>rect_x = 150, rect_y = 450, rect_w = 200, rect_h = 20\<rparr>,
          \<lparr>rect_x = 450, rect_y = 400, rect_w = 200, rect_h = 20\<rparr>,
          \<lparr>rect_x = 200, rect_y = 300, rect_w = 150, rect_h = 20\<rparr>,
          \<lparr>rect_x = 500, rect_y = 250, rect_w = 180, rect_h = 20\<rparr>,
          \<lparr>rect_x = 300, rect_y = 175, rect_w = 150, rect_h = 20\<rparr>]
   \<and> map (\<lambda>e. (rect e, patrol_left e, patrol_right e)) (enemies (init_level g))
       = [(\<lparr>rect_x = 160, rect_y = 400, rect_w = 35, rect_h = 40\<rparr>, 150, 330),
          (\<lparr>rect_x = 460, rect_y = 350, rect_w = 35, rect_h = 40\<rparr>, 450, 630),
          (\<lparr>rect_x = 510, rect_y = 200, rect_w = 35, rect_h = 40\<rparr>, 500, 660)]
   \<and> map (\<lambda>c. (coin_x c, coin_y c, collected c)) (coins (init_level g))
       = [(250, 420, False), (550, 370, False), (275, 270, False),
          (590, 220, False), (375, 150, False), (700, 500, False)]
   \<and> score (init_level g) = 0 \<and> lives (init_level g) = 3
   \<and> game_over_message (init_level g) = []
   \<and> player (init_level g) = Player_init 100 400
   \<and> platforms (init_level (init_level g)) = platforms (init_level h)
   \<and> enemies (init_level (init_level g)) = enemies (init_level h)
   \<and> coins (init_level (init_level g)) = coins (init_level h)
   \<and> player (init_level (init_level g)) = player (init_level h)
   \<and> score (init_level (init_level g)) = 0 \<and> lives (init_level (init_level g)) = 3
   \<and> game_over_message (init_level (init_level g)) = []"
  by (simp add: init_level_def Enemy_init_def Coin_init_def)

end
